theory Spec2Isabelle
  imports Main
begin

section \<open>Python values and exceptions\<close>

text \<open>
  Python strings are modelled as \<^typ>\<open>string\<close>, one \<^typ>\<open>char\<close> per code point; the
  model therefore covers the code points below 256.  Exceptions are values: a function
  that can raise returns \<open>exc + 'a\<close>, with \<open>Inl\<close> for the exception.
\<close>

datatype errno =
    EPERM | ENOENT | EBADF | EAGAIN | EACCES | EEXIST | ENOTDIR | EINVAL | EMFILE
  | EROFS | ENXIO | EADDRINUSE | ECONNREFUSED

text \<open>
  The \<open>ValueError\<close>s that \<open>parse_address_spec\<close> can raise, by what their message is
  built from: the explicit \<open>raise\<close> of the source formats the whole specification
  into the message, a failed tuple unpacking reports the two counts only, and \<open>int()\<close>
  reports the literal it rejected.
\<close>

datatype value_error =
    Unknown_protocol string
  | Not_enough_values nat nat
  | Too_many_values nat
  | Invalid_literal string

datatype exc = ValueError value_error | OSError errno

subsection \<open>String methods\<close>

text \<open>\<open>s.split(sep, 1)\<close> for a one-character separator: cut at the first occurrence.\<close>

definition str_split1 :: "char \<Rightarrow> string \<Rightarrow> string list" where
  "str_split1 sep s =
     (case dropWhile (\<lambda>c. c \<noteq> sep) s of
        [] \<Rightarrow> [s]
      | _ # back \<Rightarrow> [takeWhile (\<lambda>c. c \<noteq> sep) s, back])"

text \<open>\<open>s.rsplit(sep, 1)\<close>: cut at the last occurrence.\<close>

definition str_rsplit1 :: "char \<Rightarrow> string \<Rightarrow> string list" where
  "str_rsplit1 sep s =
     (case dropWhile (\<lambda>c. c \<noteq> sep) (rev s) of
        [] \<Rightarrow> [s]
      | _ # front \<Rightarrow> [rev front, rev (takeWhile (\<lambda>c. c \<noteq> sep) (rev s))])"

text \<open>\<open>s.rpartition(sep)\<close>: \<open>(head, sep, tail)\<close> around the last occurrence, and
  \<open>('', '', s)\<close> when there is none.\<close>

definition str_rpartition :: "char \<Rightarrow> string \<Rightarrow> string \<times> string \<times> string" where
  "str_rpartition sep s =
     (case dropWhile (\<lambda>c. c \<noteq> sep) (rev s) of
        [] \<Rightarrow> ([], [], s)
      | _ # front \<Rightarrow> (rev front, [sep], rev (takeWhile (\<lambda>c. c \<noteq> sep) (rev s))))"

definition startswith :: "string \<Rightarrow> string \<Rightarrow> bool" where
  "startswith s pre = (take (length pre) s = pre)"

text \<open>The assignment \<open>a, b = xs\<close>.\<close>

definition unpack2 :: "'a list \<Rightarrow> exc + ('a \<times> 'a)" where
  "unpack2 xs =
     (case xs of
        [a, b] \<Rightarrow> Inr (a, b)
      | _ \<Rightarrow> if length xs < 2 then Inl (ValueError (Not_enough_values 2 (length xs)))
             else Inl (ValueError (Too_many_values 2)))"

subsection \<open>\<open>int(s)\<close> on a string\<close>

text \<open>
  \<open>int(s)\<close> in base ten: white space is stripped at both ends, one sign may come first,
  then decimal digits, where single underscores may stand between two digits.  Among the
  code points below 256 the white space is tab, line feed, vertical tab, form feed,
  carriage return, space, U+0085 and U+00A0, and the decimal digits are \<open>0\<close> to \<open>9\<close>.
  The interpreter's optional limit on the number of digits is not modelled.
\<close>

definition is_digit :: "char \<Rightarrow> bool" where
  "is_digit c = (48 \<le> (of_char c :: nat) \<and> (of_char c :: nat) \<le> 57)"

definition digit_value :: "char \<Rightarrow> nat" where
  "digit_value c = of_char c - 48"

definition int_isspace :: "char \<Rightarrow> bool" where
  "int_isspace c = ((of_char c :: nat) \<in> {9, 10, 11, 12, 13, 32, 133, 160})"

text \<open>The digits of the literal: the flag says that the previous character was a digit.\<close>

fun scan_digits :: "bool \<Rightarrow> nat \<Rightarrow> string \<Rightarrow> nat option" where
  "scan_digits prev_digit acc [] = (if prev_digit then Some acc else None)"
| "scan_digits prev_digit acc (c # cs) =
     (if is_digit c then scan_digits True (10 * acc + digit_value c) cs
      else if c = CHR ''_'' \<and> prev_digit then scan_digits False acc cs
      else None)"

text \<open>The optional sign: whether it was a minus, and the text after it.\<close>

definition strip_sign :: "string \<Rightarrow> bool \<times> string" where
  "strip_sign s =
     (if take 1 s = ''-'' then (True, drop 1 s)
      else if take 1 s = ''+'' then (False, drop 1 s)
      else (False, s))"

definition is_body_char :: "char \<Rightarrow> bool" where
  "is_body_char c = (is_digit c \<or> c = CHR ''_'')"

definition py_int :: "string \<Rightarrow> exc + int" where
  "py_int s =
     (let (negative, s2) = strip_sign (dropWhile int_isspace s);
          body = takeWhile is_body_char s2;
          trailing = dropWhile is_body_char s2
      in case scan_digits False 0 body of
           None \<Rightarrow> Inl (ValueError (Invalid_literal s))
         | Some n \<Rightarrow>
             if dropWhile int_isspace trailing = []
             then Inr (if negative then - int n else int n)
             else Inl (ValueError (Invalid_literal s)))"

section \<open>Endpoint specifications: \<open>parse_address_spec\<close>\<close>

datatype family = AF_UNIX | AF_INET | AF_INET6

text \<open>A Unix address is a string (a path, or a name after a zero character in the
  abstract namespace); an internet address is the pair of a host and a port.\<close>

datatype address = Unix_address string | Inet_address string int

definition parse_address_spec :: "string \<Rightarrow> exc + (family \<times> address \<times> string option)" where
  "parse_address_spec spec =
     (case unpack2 (str_split1 CHR '':'' spec) of
        Inl e \<Rightarrow> Inl e
      | Inr (protocol, rest) \<Rightarrow>
          if protocol = ''unix'' then
            (if startswith rest ''@'' \<and> length rest > 1
             then Inr (AF_UNIX, Unix_address (CHR 0x00 # drop 1 rest), None)
             else Inr (AF_UNIX, Unix_address rest, Some rest))
          else if protocol \<in> {''tcp'', ''tcp6''} then
            (case unpack2 (str_rsplit1 CHR '':'' rest) of
               Inl e \<Rightarrow> Inl e
             | Inr (host, port) \<Rightarrow>
                 (case py_int port of
                    Inl e \<Rightarrow> Inl e
                  | Inr n \<Rightarrow>
                      Inr (if protocol = ''tcp'' then AF_INET else AF_INET6,
                           Inet_address host n, None)))
          else Inl (ValueError (Unknown_protocol spec)))"

text \<open>
  Two notions used to state properties of the parser: the number a string of decimal
  digits denotes, and the text that the message of a \<open>ValueError\<close> quotes.
\<close>

definition decimal_value :: "string \<Rightarrow> nat" where
  "decimal_value ds = foldl (\<lambda>a c. 10 * a + digit_value c) 0 ds"

definition quoted_text :: "value_error \<Rightarrow> string option" where
  "quoted_text e =
     (case e of
        Unknown_protocol s \<Rightarrow> Some s
      | Invalid_literal s \<Rightarrow> Some s
      | Not_enough_values _ _ \<Rightarrow> None
      | Too_many_values _ \<Rightarrow> None)"

section \<open>The operating system interface\<close>

text \<open>
  The coordination code talks to the kernel through \<open>os\<close>, \<open>fcntl\<close>, \<open>socket\<close> and
  \<open>tempfile\<close>.  These calls are parameters of the model: a value of type \<open>'w os\<close>
  gives, for every call the source makes, its outcome in a world \<open>'w\<close> -- either an
  \<open>errno\<close> (Python raises \<open>OSError\<close> with it, the world is unchanged) or a result and
  the world after the call.  \<open>appname\<close> and \<open>is_macos\<close> come from the module
  \<open>constants\<close> and \<open>user_cache_dir\<close> from \<open>fast_data_types\<close>; they are parameters too.
\<close>

type_synonym path = string
type_synonym fd = nat
type_synonym sock = nat

datatype open_flag = O_CREAT | O_WRONLY | O_TRUNC | O_CLOEXEC
datatype lock_op = LOCK_EX | LOCK_NB
datatype access_mode = R_OK | W_OK | X_OK

record constants =
  appname :: string
  is_macos :: bool

record 'w os =
  os_open :: "path \<Rightarrow> open_flag set \<Rightarrow> 'w \<Rightarrow> errno + (fd \<times> 'w)"
  lockf :: "fd \<Rightarrow> lock_op set \<Rightarrow> 'w \<Rightarrow> errno + (unit \<times> 'w)"
  os_unlink :: "path \<Rightarrow> 'w \<Rightarrow> errno + (unit \<times> 'w)"
  os_access :: "path \<Rightarrow> access_mode set \<Rightarrow> 'w \<Rightarrow> bool"
  os_geteuid :: "'w \<Rightarrow> nat"
  expanduser_home :: "'w \<Rightarrow> path"
  gettempdir :: "'w \<Rightarrow> errno + path"
  user_cache_dir :: "'w \<Rightarrow> path"
  socket_socket :: "family \<Rightarrow> 'w \<Rightarrow> errno + (sock \<times> 'w)"
  sock_bind :: "sock \<Rightarrow> string \<Rightarrow> 'w \<Rightarrow> errno + (unit \<times> 'w)"
  sock_connect :: "sock \<Rightarrow> string \<Rightarrow> 'w \<Rightarrow> errno + (unit \<times> 'w)"
  sock_listen :: "sock \<Rightarrow> 'w \<Rightarrow> errno + (unit \<times> 'w)"
  sock_set_inheritable :: "sock \<Rightarrow> bool \<Rightarrow> 'w \<Rightarrow> errno + (unit \<times> 'w)"
  sock_close :: "sock \<Rightarrow> 'w \<Rightarrow> errno + (unit \<times> 'w)"

text \<open>
  The state of the running process: the attribute \<open>SingleInstance.socket\<close>, the calls
  of \<open>remove_socket_file\<close> registered with \<open>atexit\<close> (the latest first, the order in
  which they run), and the world.
\<close>

record 'w state =
  single_instance_socket :: "sock option"
  atexit_registry :: "(sock \<times> path option) list"
  world :: 'w

text \<open>A statement returns a value or raises; either way the state goes on.\<close>

datatype 'a outcome = Return 'a | Raise exc

definition seq ::
  "('w state \<Rightarrow> 'a outcome \<times> 'w state) \<Rightarrow> ('a \<Rightarrow> 'w state \<Rightarrow> 'b outcome \<times> 'w state)
     \<Rightarrow> 'w state \<Rightarrow> 'b outcome \<times> 'w state" where
  "seq m f st =
     (case m st of
        (Return a, st1) \<Rightarrow> f a st1
      | (Raise e, st1) \<Rightarrow> (Raise e, st1))"

definition syscall :: "('w \<Rightarrow> errno + ('a \<times> 'w)) \<Rightarrow> 'w state \<Rightarrow> 'a outcome \<times> 'w state" where
  "syscall c st =
     (case c (world st) of
        Inl e \<Rightarrow> (Raise (OSError e), st)
      | Inr (a, w) \<Rightarrow> (Return a, st\<lparr>world := w\<rparr>))"

text \<open>\<open>with suppress(OSError): body\<close>.\<close>

definition suppress_OSError ::
  "('w state \<Rightarrow> unit outcome \<times> 'w state) \<Rightarrow> 'w state \<Rightarrow> unit outcome \<times> 'w state" where
  "suppress_OSError body st =
     (case body st of
        (Raise (OSError e), st1) \<Rightarrow> (Return (), st1)
      | r \<Rightarrow> r)"

subsection \<open>Formatting and paths\<close>

text \<open>\<open>'{}'.format(n)\<close> for a non-negative integer: its decimal digits.\<close>

fun str_nat :: "nat \<Rightarrow> string" where
  "str_nat n =
     (if n < 10 then [''0123456789'' ! n]
      else str_nat (n div 10) @ [''0123456789'' ! (n mod 10)])"

declare str_nat.simps [simp del]

definition endswith :: "string \<Rightarrow> string \<Rightarrow> bool" where
  "endswith s suf = (drop (length s - length suf) s = suf \<and> length suf \<le> length s)"

text \<open>\<open>os.path.join(a, b)\<close> of \<open>posixpath\<close>.\<close>

definition path_join :: "path \<Rightarrow> path \<Rightarrow> path" where
  "path_join a b =
     (if startswith b ''/'' then b
      else if a = [] \<or> endswith a ''/'' then a @ b
      else a @ ''/'' @ b)"

section \<open>Cleanup: \<open>remove_socket_file\<close>\<close>

definition remove_socket_file ::
  "'w os \<Rightarrow> sock \<Rightarrow> path option \<Rightarrow> 'w state \<Rightarrow> unit outcome \<times> 'w state" where
  "remove_socket_file os s path =
     seq (suppress_OSError (syscall (sock_close os s)))
       (\<lambda>_. case path of
              None \<Rightarrow> (\<lambda>st. (Return (), st))
            | Some p \<Rightarrow>
                if p \<noteq> [] then suppress_OSError (syscall (os_unlink os p))
                else (\<lambda>st. (Return (), st)))"

text \<open>
  At exit \<open>atexit\<close> runs the registered calls, the latest first; an exception of one
  call is reported and does not stop the others.
\<close>

fun run_exitfuncs :: "'w os \<Rightarrow> (sock \<times> path option) list \<Rightarrow> 'w state \<Rightarrow> 'w state" where
  "run_exitfuncs os [] st = st"
| "run_exitfuncs os ((s, path) # hs) st =
     run_exitfuncs os hs (snd (remove_socket_file os s path st))"

definition at_exit :: "'w os \<Rightarrow> 'w state \<Rightarrow> 'w state" where
  "at_exit os st = run_exitfuncs os (atexit_registry st) (st\<lparr>atexit_registry := []\<rparr>)"

section \<open>Candidate directories: \<open>unix_socket_paths\<close>\<close>

text \<open>
  The generator's loop over the candidates: the paths it yields, in order.  The access
  checks only read the world, and the caller never resumes the generator after a change
  of the world, so the yielded sequence is a function of the world at the first request.
\<close>

fun yield_paths :: "'w os \<Rightarrow> 'w \<Rightarrow> path \<Rightarrow> string \<Rightarrow> string \<Rightarrow> path list \<Rightarrow> path list" where
  "yield_paths os w home name ext [] = []"
| "yield_paths os w home name ext (loc # candidates) =
     (if os_access os loc {W_OK, R_OK, X_OK} w
      then path_join loc ((if loc = home then ''.'' else []) @ name @ ext)
             # yield_paths os w home name ext candidates
      else yield_paths os w home name ext candidates)"

definition unix_socket_paths ::
  "constants \<Rightarrow> 'w os \<Rightarrow> string \<Rightarrow> string \<Rightarrow> 'w \<Rightarrow> exc + path list" where
  "unix_socket_paths k os name ext w =
     (let home = expanduser_home os w in
      case gettempdir os w of
        Inl e \<Rightarrow> Inl (OSError e)
      | Inr tmp \<Rightarrow>
          let candidates =
                (if is_macos k then [user_cache_dir os w, ''/Library/Caches'']
                 else [tmp, home])
          in Inr (yield_paths os w home name ext candidates))"

section \<open>The filesystem coordinator: \<open>single_instance_unix\<close>\<close>

definition socket_path_of :: "path \<Rightarrow> path" where
  "socket_path_of path = fst (str_rpartition CHR ''.'' path) @ ''.sock''"

text \<open>
  The body of the loop over the candidate paths.  Every way through it ends in
  \<open>return\<close> or \<open>raise\<close>: it never hands control back to the loop.
\<close>

definition single_instance_unix_body ::
  "'w os \<Rightarrow> path \<Rightarrow> 'w state \<Rightarrow> bool outcome \<times> 'w state" where
  "single_instance_unix_body os path =
     (let socket_path = socket_path_of path in
      seq (syscall (os_open os path {O_CREAT, O_WRONLY, O_TRUNC, O_CLOEXEC}))
        (\<lambda>fd st.
           case lockf os fd {LOCK_EX, LOCK_NB} (world st) of
             Inl err \<Rightarrow>
               if err \<in> {EAGAIN, EACCES} then
                 seq (syscall (socket_socket os AF_UNIX))
                   (\<lambda>s. seq (syscall (sock_connect os s socket_path))
                     (\<lambda>_ st2. (Return False, st2\<lparr>single_instance_socket := Some s\<rparr>))) st
               else (Raise (OSError err), st)
           | Inr (_, w) \<Rightarrow>
               seq (syscall (socket_socket os AF_UNIX))
                 (\<lambda>s. seq
                    (\<lambda>st3.
                       case sock_bind os s socket_path (world st3) of
                         Inl err \<Rightarrow>
                           if err \<in> {EADDRINUSE, EEXIST} then
                             seq (syscall (os_unlink os socket_path))
                               (\<lambda>_. syscall (sock_bind os s socket_path)) st3
                           else (Raise (OSError err), st3)
                       | Inr (_, w4) \<Rightarrow> (Return (), st3\<lparr>world := w4\<rparr>))
                    (\<lambda>_ st5.
                       seq (syscall (sock_listen os s))
                         (\<lambda>_. seq (syscall (sock_set_inheritable os s False))
                           (\<lambda>_ st7. (Return True, st7)))
                         (st5\<lparr>single_instance_socket := Some s,
                              atexit_registry := (s, Some socket_path) # atexit_registry st5\<rparr>)))
                 (st\<lparr>world := w\<rparr>)))"

text \<open>
  The function: the loop runs its body on the first path the generator yields; when the
  generator yields nothing (or after the loop, which no path reaches) the function ends
  without a \<open>return\<close> statement, and its value is \<open>None\<close>.
\<close>

definition single_instance_unix ::
  "constants \<Rightarrow> 'w os \<Rightarrow> string \<Rightarrow> 'w state \<Rightarrow> bool option outcome \<times> 'w state" where
  "single_instance_unix k os name st =
     (case unix_socket_paths k os name ''.lock'' (world st) of
        Inl e \<Rightarrow> (Raise e, st)
      | Inr [] \<Rightarrow> (Return None, st)
      | Inr (path # _) \<Rightarrow>
          (case single_instance_unix_body os path st of
             (Return b, st1) \<Rightarrow> (Return (Some b), st1)
           | (Raise e, st1) \<Rightarrow> (Raise e, st1)))"

section \<open>The abstract-namespace coordinator: \<open>SingleInstance.__call__\<close>\<close>

definition instance_name :: "constants \<Rightarrow> nat \<Rightarrow> string option \<Rightarrow> string" where
  "instance_name k euid group_id =
     (let name = appname k @ ''-ipc-'' @ str_nat euid in
      case group_id of
        None \<Rightarrow> name
      | Some g \<Rightarrow> if g \<noteq> [] then name @ ''-'' @ g else name)"

definition SingleInstance_call ::
  "constants \<Rightarrow> 'w os \<Rightarrow> string option \<Rightarrow> 'w state \<Rightarrow> bool option outcome \<times> 'w state" where
  "SingleInstance_call k os group_id st =
     (let name = instance_name k (os_geteuid os (world st)) group_id;
          addr = CHR 0x00 # name
      in seq (syscall (socket_socket os AF_UNIX))
           (\<lambda>s st1.
              case sock_bind os s addr (world st1) of
                Inl err \<Rightarrow>
                  if err = ENOENT then single_instance_unix k os name st1
                  else if err = EADDRINUSE then
                    seq (syscall (sock_connect os s addr))
                      (\<lambda>_ st2. (Return (Some False), st2\<lparr>single_instance_socket := Some s\<rparr>)) st1
                  else (Raise (OSError err), st1)
              | Inr (_, w) \<Rightarrow>
                  seq (syscall (sock_listen os s))
                    (\<lambda>_ st2.
                       seq (syscall (sock_set_inheritable os s False))
                         (\<lambda>_ st3.
                            (Return (Some True),
                             st3\<lparr>atexit_registry := (s, None) # atexit_registry st3\<rparr>))
                         (st2\<lparr>single_instance_socket := Some s\<rparr>))
                    (st1\<lparr>world := w\<rparr>)) st)"

section \<open>A reference kernel\<close>

text \<open>
  A small model of the kernel objects the calls act on, as one process sees them: the
  directory entries, the process's descriptors and sockets, the advisory locks, and what
  the other processes contribute (locks they hold, addresses they listen on).  It is one
  instance of the interface above; the properties of the control flow are proved for
  every instance, the effects on the filesystem are stated on this one.
\<close>

datatype entry = Regular_file | Socket_file sock

datatype owner = This_process | Other_process

datatype sock_state = Unbound | Bound string | Listening string | Connected string

record kernel =
  k_files :: "path \<Rightarrow> entry option"
  k_open_error :: "path \<Rightarrow> errno option"
  k_descriptors :: "fd \<Rightarrow> path option"
  k_lock_holder :: "path \<Rightarrow> owner option"
  k_sockets :: "sock \<Rightarrow> sock_state option"
  k_abstract_supported :: bool
  k_abstract_bound :: "string \<Rightarrow> bool"
  k_peer_listening :: "string \<Rightarrow> bool"
  k_accessible :: "path \<Rightarrow> bool"
  k_next_fd :: fd
  k_next_sock :: sock
  k_euid :: nat
  k_home :: path
  k_tempdir :: "path option"
  k_cache_dir :: path

text \<open>\<open>open\<close> with \<open>O_CREAT | O_WRONLY | O_TRUNC\<close>: the file is created when absent; a path
  the process may not open for writing gives the error recorded for it.\<close>

definition k_open :: "path \<Rightarrow> open_flag set \<Rightarrow> kernel \<Rightarrow> errno + (fd \<times> kernel)" where
  "k_open p flags w =
     (case k_open_error w p of
        Some e \<Rightarrow> Inl e
      | None \<Rightarrow>
          (case k_files w p of
             Some (Socket_file _) \<Rightarrow> Inl ENXIO
           | Some Regular_file \<Rightarrow>
               Inr (k_next_fd w,
                    w\<lparr>k_descriptors := (k_descriptors w)(k_next_fd w \<mapsto> p),
                      k_next_fd := Suc (k_next_fd w)\<rparr>)
           | None \<Rightarrow>
               if O_CREAT \<in> flags then
                 Inr (k_next_fd w,
                      w\<lparr>k_files := (k_files w)(p \<mapsto> Regular_file),
                        k_descriptors := (k_descriptors w)(k_next_fd w \<mapsto> p),
                        k_next_fd := Suc (k_next_fd w)\<rparr>)
               else Inl ENOENT))"

text \<open>A non-blocking exclusive lock: refused while another process holds it.\<close>

definition k_lockf :: "fd \<Rightarrow> lock_op set \<Rightarrow> kernel \<Rightarrow> errno + (unit \<times> kernel)" where
  "k_lockf d ops w =
     (case k_descriptors w d of
        None \<Rightarrow> Inl EBADF
      | Some p \<Rightarrow>
          (case k_lock_holder w p of
             Some Other_process \<Rightarrow> Inl EAGAIN
           | _ \<Rightarrow> Inr ((), w\<lparr>k_lock_holder := (k_lock_holder w)(p \<mapsto> This_process)\<rparr>)))"

definition k_unlink :: "path \<Rightarrow> kernel \<Rightarrow> errno + (unit \<times> kernel)" where
  "k_unlink p w =
     (case k_files w p of
        None \<Rightarrow> Inl ENOENT
      | Some _ \<Rightarrow> Inr ((), w\<lparr>k_files := (k_files w)(p := None)\<rparr>))"

definition k_socket :: "family \<Rightarrow> kernel \<Rightarrow> errno + (sock \<times> kernel)" where
  "k_socket fam w =
     Inr (k_next_sock w,
          w\<lparr>k_sockets := (k_sockets w)(k_next_sock w \<mapsto> Unbound),
            k_next_sock := Suc (k_next_sock w)\<rparr>)"

text \<open>An address that starts with the zero character lives in the abstract namespace;
  any other address is a path, and binding creates the socket file.\<close>

definition is_abstract :: "string \<Rightarrow> bool" where
  "is_abstract a = (take 1 a = [CHR 0x00])"

definition k_bind :: "sock \<Rightarrow> string \<Rightarrow> kernel \<Rightarrow> errno + (unit \<times> kernel)" where
  "k_bind s a w =
     (case k_sockets w s of
        None \<Rightarrow> Inl EBADF
      | Some Unbound \<Rightarrow>
          if is_abstract a then
            (if \<not> k_abstract_supported w then Inl ENOENT
             else if k_abstract_bound w a then Inl EADDRINUSE
             else Inr ((), w\<lparr>k_abstract_bound := (k_abstract_bound w)(a := True),
                              k_sockets := (k_sockets w)(s \<mapsto> Bound a)\<rparr>))
          else
            (case k_files w a of
               Some _ \<Rightarrow> Inl EADDRINUSE
             | None \<Rightarrow>
                 Inr ((), w\<lparr>k_files := (k_files w)(a \<mapsto> Socket_file s),
                              k_sockets := (k_sockets w)(s \<mapsto> Bound a)\<rparr>))
      | Some _ \<Rightarrow> Inl EINVAL)"

definition k_listen :: "sock \<Rightarrow> kernel \<Rightarrow> errno + (unit \<times> kernel)" where
  "k_listen s w =
     (case k_sockets w s of
        None \<Rightarrow> Inl EBADF
      | Some (Bound a) \<Rightarrow> Inr ((), w\<lparr>k_sockets := (k_sockets w)(s \<mapsto> Listening a)\<rparr>)
      | Some (Listening a) \<Rightarrow> Inr ((), w)
      | Some _ \<Rightarrow> Inl EINVAL)"

text \<open>\<open>connect\<close> reaches a listener of another process; without one it is refused, or
  finds no socket file at all.\<close>

definition k_connect :: "sock \<Rightarrow> string \<Rightarrow> kernel \<Rightarrow> errno + (unit \<times> kernel)" where
  "k_connect s a w =
     (case k_sockets w s of
        None \<Rightarrow> Inl EBADF
      | Some Unbound \<Rightarrow>
          if k_peer_listening w a then
            Inr ((), w\<lparr>k_sockets := (k_sockets w)(s \<mapsto> Connected a)\<rparr>)
          else if \<not> is_abstract a \<and> k_files w a = None then Inl ENOENT
          else Inl ECONNREFUSED
      | Some _ \<Rightarrow> Inl EINVAL)"

definition k_set_inheritable :: "sock \<Rightarrow> bool \<Rightarrow> kernel \<Rightarrow> errno + (unit \<times> kernel)" where
  "k_set_inheritable s b w =
     (case k_sockets w s of
        None \<Rightarrow> Inl EBADF
      | Some _ \<Rightarrow> Inr ((), w))"

text \<open>Closing a socket leaves its socket file in place; an abstract name goes with it.\<close>

definition k_close :: "sock \<Rightarrow> kernel \<Rightarrow> errno + (unit \<times> kernel)" where
  "k_close s w =
     (case k_sockets w s of
        None \<Rightarrow> Inl EBADF
      | Some st \<Rightarrow>
          Inr ((), w\<lparr>k_sockets := (k_sockets w)(s := None),
                       k_abstract_bound :=
                         (case st of
                            Bound a \<Rightarrow> (k_abstract_bound w)(a := False)
                          | Listening a \<Rightarrow> (k_abstract_bound w)(a := False)
                          | _ \<Rightarrow> k_abstract_bound w)\<rparr>))"

definition reference_os :: "kernel os" where
  "reference_os =
     \<lparr>os_open = k_open,
      lockf = k_lockf,
      os_unlink = k_unlink,
      os_access = (\<lambda>p modes w. k_accessible w p),
      os_geteuid = k_euid,
      expanduser_home = k_home,
      gettempdir = (\<lambda>w. case k_tempdir w of None \<Rightarrow> Inl ENOENT | Some t \<Rightarrow> Inr t),
      user_cache_dir = k_cache_dir,
      socket_socket = k_socket,
      sock_bind = k_bind,
      sock_connect = k_connect,
      sock_listen = k_listen,
      sock_set_inheritable = k_set_inheritable,
      sock_close = k_close\<rparr>"

text \<open>
  A machine without abstract-namespace sockets where \<open>/tmp\<close> and the home directory are
  usable and nothing exists yet, and the state of a process that has just started.
\<close>

definition fresh_kernel :: kernel where
  "fresh_kernel =
     \<lparr>k_files = (\<lambda>p. None),
      k_open_error = (\<lambda>p. None),
      k_descriptors = (\<lambda>d. None),
      k_lock_holder = (\<lambda>p. None),
      k_sockets = (\<lambda>s. None),
      k_abstract_supported = False,
      k_abstract_bound = (\<lambda>a. False),
      k_peer_listening = (\<lambda>a. False),
      k_accessible = (\<lambda>p. p = ''/tmp'' \<or> p = ''/home/u''),
      k_next_fd = 3,
      k_next_sock = 0,
      k_euid = 1000,
      k_home = ''/home/u'',
      k_tempdir = Some ''/tmp'',
      k_cache_dir = ''/home/u/Library/Caches''\<rparr>"

definition start :: "'w \<Rightarrow> 'w state" where
  "start w = \<lparr>single_instance_socket = None, atexit_registry = [], world = w\<rparr>"

definition kitty :: constants where
  "kitty = \<lparr>appname = ''kitty'', is_macos = False\<rparr>"

text \<open>
  Three more situations: what a killed primary leaves in \<open>/tmp\<close> (its lock file and its
  socket file, no lock held, nobody listening); a live primary of another process in
  \<open>/tmp\<close>; and a lock file in \<open>/tmp\<close> that this process may not open.
\<close>

definition after_crash :: kernel where
  "after_crash =
     fresh_kernel
       \<lparr>k_files := (\<lambda>p. if p = ''/tmp/kitty-ipc-1000.lock'' then Some Regular_file
                         else if p = ''/tmp/kitty-ipc-1000.sock'' then Some (Socket_file 7)
                         else None),
        k_next_sock := 8\<rparr>"

definition live_primary :: kernel where
  "live_primary =
     fresh_kernel
       \<lparr>k_files := (\<lambda>p. if p = ''/tmp/kitty-ipc-1000.lock'' then Some Regular_file
                         else if p = ''/tmp/kitty-ipc-1000.sock'' then Some (Socket_file 7)
                         else None),
        k_lock_holder := (\<lambda>p. if p = ''/tmp/kitty-ipc-1000.lock'' then Some Other_process
                               else None),
        k_peer_listening := (\<lambda>a. a = ''/tmp/kitty-ipc-1000.sock''),
        k_next_sock := 8\<rparr>"

definition lock_file_denied :: kernel where
  "lock_file_denied =
     fresh_kernel
       \<lparr>k_open_error := (\<lambda>p. if p = ''/tmp/kitty-ipc-1000.lock'' then Some EACCES else None)\<rparr>"

text \<open>With abstract-namespace sockets: the name free, and the name taken by a listening
  primary.\<close>

definition abstract_free :: kernel where
  "abstract_free = fresh_kernel\<lparr>k_abstract_supported := True\<rparr>"

definition abstract_taken :: kernel where
  "abstract_taken =
     fresh_kernel
       \<lparr>k_abstract_supported := True,
        k_abstract_bound := (\<lambda>a. a = CHR 0x00 # ''kitty-ipc-1000''),
        k_peer_listening := (\<lambda>a. a = CHR 0x00 # ''kitty-ipc-1000'')\<rparr>"

section \<open>Properties of the parser\<close>

subsection \<open>Splitting and \<open>int()\<close>\<close>

lemma dropWhile_neq_nil: "sep \<notin> set p \<Longrightarrow> dropWhile (\<lambda>c. c \<noteq> sep) p = []"
  by (induction p) auto

lemma takeWhile_neq_all: "sep \<notin> set p \<Longrightarrow> takeWhile (\<lambda>c. c \<noteq> sep) p = p"
  by (induction p) auto

lemma dropWhile_neq_app:
  "sep \<notin> set p \<Longrightarrow> dropWhile (\<lambda>c. c \<noteq> sep) (p @ sep # r) = sep # r"
  by (induction p) auto

lemma takeWhile_neq_app:
  "sep \<notin> set p \<Longrightarrow> takeWhile (\<lambda>c. c \<noteq> sep) (p @ sep # r) = p"
  by (induction p) auto

lemma str_split1_first:
  "sep \<notin> set p \<Longrightarrow> str_split1 sep (p @ sep # rest) = [p, rest]"
  by (simp add: str_split1_def dropWhile_neq_app takeWhile_neq_app)

lemma str_split1_none:
  "sep \<notin> set s \<Longrightarrow> str_split1 sep s = [s]"
  by (simp add: str_split1_def dropWhile_neq_nil)

lemma str_rsplit1_last:
  "sep \<notin> set q \<Longrightarrow> str_rsplit1 sep (h @ sep # q) = [h, q]"
  by (simp add: str_rsplit1_def dropWhile_neq_app takeWhile_neq_app)

lemma str_rsplit1_none:
  "sep \<notin> set s \<Longrightarrow> str_rsplit1 sep s = [s]"
  by (simp add: str_rsplit1_def dropWhile_neq_nil)

lemma str_rpartition_last:
  "sep \<notin> set q \<Longrightarrow> str_rpartition sep (h @ sep # q) = (h, [sep], q)"
  by (simp add: str_rpartition_def dropWhile_neq_app takeWhile_neq_app)

lemma scan_digits_all:
  "\<forall>c\<in>set ds. is_digit c \<Longrightarrow> ds \<noteq> [] \<or> prev \<Longrightarrow>
     scan_digits prev acc ds = Some (foldl (\<lambda>a c. 10 * a + digit_value c) acc ds)"
  by (induction ds arbitrary: prev acc) auto

lemma digit_not_space: "is_digit c \<Longrightarrow> \<not> int_isspace c"
  by (auto simp: is_digit_def int_isspace_def)

lemma digit_not_sign: "is_digit c \<Longrightarrow> c \<noteq> CHR ''+'' \<and> c \<noteq> CHR ''-'' \<and> c \<noteq> CHR '':''"
  by (auto simp: is_digit_def)

lemma strip_sign_digit: "is_digit d \<Longrightarrow> strip_sign (d # ds) = (False, d # ds)"
  using digit_not_sign[of d] by (simp add: strip_sign_def)

lemma py_int_digits:
  assumes "ds \<noteq> []" "\<forall>c\<in>set ds. is_digit c"
  shows "py_int ds = Inr (int (decimal_value ds))"
proof -
  obtain d ds' where ds: "ds = d # ds'" using assms(1) by (cases ds) auto
  have d: "is_digit d" using assms(2) ds by simp
  have s1: "dropWhile int_isspace ds = ds" using d ds digit_not_space by simp
  have sign: "strip_sign ds = (False, ds)" using d ds by (simp add: strip_sign_digit)
  have body: "takeWhile is_body_char ds = ds"
    using assms(2) by (simp add: takeWhile_eq_all_conv is_body_char_def)
  have trail: "dropWhile is_body_char ds = []"
    using assms(2) by (simp add: is_body_char_def)
  have scan: "scan_digits False 0 ds = Some (decimal_value ds)"
    using scan_digits_all[OF assms(2), of False 0] assms(1) by (simp add: decimal_value_def)
  show ?thesis
    by (simp add: py_int_def s1 sign body trail scan)
qed

lemma scan_digits_no_digit:
  "\<forall>c\<in>set b. \<not> is_digit c \<Longrightarrow> scan_digits False acc b = None"
  by (cases b) auto

lemma set_strip_sign: "set (snd (strip_sign s)) \<subseteq> set s"
  by (auto simp: strip_sign_def dest: in_set_dropD)

lemma py_int_no_digit:
  assumes "\<forall>c\<in>set s. \<not> is_digit c"
  shows "py_int s = Inl (ValueError (Invalid_literal s))"
proof -
  define s2 where "s2 = snd (strip_sign (dropWhile int_isspace s))"
  have "set (dropWhile int_isspace s) \<subseteq> set s" by (rule set_dropWhileD[THEN subsetI])
  then have "set s2 \<subseteq> set s" unfolding s2_def using set_strip_sign by blast
  then have "\<forall>c\<in>set (takeWhile is_body_char s2). \<not> is_digit c"
    using assms by (meson set_takeWhileD subsetD)
  then have "scan_digits False 0 (takeWhile is_body_char s2) = None"
    by (rule scan_digits_no_digit)
  then show ?thesis
    by (simp add: py_int_def case_prod_beta s2_def)
qed

lemma after_sign:
  assumes "c \<in> set xs" "c \<noteq> CHR ''+''" "c \<noteq> CHR ''-''"
  shows "c \<in> set (snd (strip_sign xs))"
proof (cases xs)
  case Nil
  then show ?thesis using assms(1) by simp
next
  case (Cons a as)
  show ?thesis
  proof (cases "a = CHR ''+'' \<or> a = CHR ''-''")
    case True
    then have "c \<noteq> a" using assms(2,3) by blast
    then have "c \<in> set as" using assms(1) Cons by simp
    then show ?thesis using Cons True by (simp add: strip_sign_def)
  next
    case False
    then show ?thesis using Cons assms(1) by (simp add: strip_sign_def)
  qed
qed

lemma in_dropWhile: "c \<in> set xs \<Longrightarrow> \<not> P c \<Longrightarrow> c \<in> set (dropWhile P xs)"
  by (induction xs) auto

lemma py_int_foreign_char:
  assumes "c \<in> set s" "\<not> is_digit c" "\<not> int_isspace c"
    "c \<noteq> CHR ''+''" "c \<noteq> CHR ''-''" "c \<noteq> CHR ''_''"
  shows "py_int s = Inl (ValueError (Invalid_literal s))"
proof -
  define s2 where "s2 = snd (strip_sign (dropWhile int_isspace s))"
  define trailing where "trailing = dropWhile is_body_char s2"
  have c1: "c \<in> set (dropWhile int_isspace s)"
    using assms(1,3) by (rule in_dropWhile)
  have c2: "c \<in> set s2"
    unfolding s2_def using c1 assms(4,5) by (rule after_sign)
  have "\<not> is_body_char c" using assms(2,6) by (simp add: is_body_char_def)
  with c2 have c3: "c \<in> set trailing"
    unfolding trailing_def by (rule in_dropWhile)
  have "c \<in> set (dropWhile int_isspace trailing)"
    using c3 assms(3) by (rule in_dropWhile)
  then have "dropWhile int_isspace trailing \<noteq> []" by force
  then show ?thesis
    by (simp add: py_int_def case_prod_beta s2_def trailing_def split: option.splits) blast
qed

subsection \<open>Well-formed specifications\<close>

text \<open>
  Claim C3.  For every well-formed specification \<open>parse_address_spec\<close> recovers the
  fields that were encoded in it.  For \<open>unix:@name\<close> with a non-empty name the address is
  the name after a zero character (the abstract namespace) and there is no cleanup path.
  For any other \<open>unix:rest\<close> (a rest that does not start with \<open>@\<close>, the rest \<open>@\<close> alone, the
  empty rest) the rest is both the bind address and the cleanup path.  For
  \<open>tcp:host:port\<close> and \<open>tcp6:host:port\<close>, where the port is a non-empty string of decimal
  digits, the result is the family, the host and the number the digits denote; the host
  is everything before the last colon, so it may contain colons itself.
\<close>

theorem parse_address_spec_fields:
  "(name \<noteq> [] \<longrightarrow>
      parse_address_spec (''unix:@'' @ name) = Inr (AF_UNIX, Unix_address (CHR 0x00 # name), None))
   \<and> (\<not> (startswith rest ''@'' \<and> length rest > 1) \<longrightarrow>
      parse_address_spec (''unix:'' @ rest) = Inr (AF_UNIX, Unix_address rest, Some rest))
   \<and> (port \<noteq> [] \<and> (\<forall>c\<in>set port. is_digit c) \<longrightarrow>
      parse_address_spec (''tcp:'' @ host @ '':'' @ port)
        = Inr (AF_INET, Inet_address host (int (decimal_value port)), None)
      \<and> parse_address_spec (''tcp6:'' @ host @ '':'' @ port)
        = Inr (AF_INET6, Inet_address host (int (decimal_value port)), None))"
proof (intro conjI impI)
  have u: "str_split1 CHR '':'' (''unix'' @ CHR '':'' # r) = [''unix'', r]" for r
    by (rule str_split1_first) simp
  show "parse_address_spec (''unix:@'' @ name) = Inr (AF_UNIX, Unix_address (CHR 0x00 # name), None)"
    if "name \<noteq> []"
    using that u[of "CHR ''@'' # name"]
    by (simp add: parse_address_spec_def unpack2_def startswith_def)
  show "parse_address_spec (''unix:'' @ rest) = Inr (AF_UNIX, Unix_address rest, Some rest)"
    if "\<not> (startswith rest ''@'' \<and> length rest > 1)"
    using that u[of rest]
    by (simp add: parse_address_spec_def unpack2_def)
  assume p: "port \<noteq> [] \<and> (\<forall>c\<in>set port. is_digit c)"
  then have nocolon: "CHR '':'' \<notin> set port" using digit_not_sign by blast
  have r: "str_rsplit1 CHR '':'' (host @ CHR '':'' # port) = [host, port]"
    using nocolon by (rule str_rsplit1_last)
  have i: "py_int port = Inr (int (decimal_value port))"
    using p by (simp add: py_int_digits)
  have t: "str_split1 CHR '':'' (''tcp'' @ CHR '':'' # x) = [''tcp'', x]" for x
    by (rule str_split1_first) simp
  have t6: "str_split1 CHR '':'' (''tcp6'' @ CHR '':'' # x) = [''tcp6'', x]" for x
    by (rule str_split1_first) simp
  show "parse_address_spec (''tcp:'' @ host @ '':'' @ port)
        = Inr (AF_INET, Inet_address host (int (decimal_value port)), None)"
    using t[of "host @ CHR '':'' # port"] r i
    by (simp add: parse_address_spec_def unpack2_def)
  show "parse_address_spec (''tcp6:'' @ host @ '':'' @ port)
        = Inr (AF_INET6, Inet_address host (int (decimal_value port)), None)"
    using t6[of "host @ CHR '':'' # port"] r i
    by (simp add: parse_address_spec_def unpack2_def)
qed

theorem parse_address_spec_fields_witness:
  "parse_address_spec ''unix:@mykitty'' = Inr (AF_UNIX, Unix_address (CHR 0x00 # ''mykitty''), None)
   \<and> parse_address_spec ''unix:/tmp/mykitty'' = Inr (AF_UNIX, Unix_address ''/tmp/mykitty'', Some ''/tmp/mykitty'')
   \<and> parse_address_spec ''tcp:localhost:5000'' = Inr (AF_INET, Inet_address ''localhost'' 5000, None)
   \<and> parse_address_spec ''tcp6:::1:5000'' = Inr (AF_INET6, Inet_address ''::1'' 5000, None)"
  using parse_address_spec_fields [of "''mykitty''" "''/tmp/mykitty''" "''5000''" "''localhost''"]
    parse_address_spec_fields [of "''mykitty''" "''/tmp/mykitty''" "''5000''" "''::1''"]
  by (simp add: startswith_def is_digit_def decimal_value_def digit_value_def)

subsection \<open>Malformed specifications\<close>

text \<open>
  \<open>parse_address_spec\<close> is a function of the string alone: it reads and changes no
  state, and the same string always gives the same result.  It raises \<open>ValueError\<close> on
  a string without a colon, on an unknown protocol, on a \<open>tcp\<close> or \<open>tcp6\<close> rest without a
  colon, and on a port that has no digit or has a character that is not a digit, a sign,
  an underscore or white space.  What the error carries depends on where it is raised:
  the whole specification for an unknown protocol, the port text for a port that
  \<open>int()\<close> rejects, and only the two counts of the failed unpacking when a separator is
  missing.
\<close>

lemma parse_address_spec_raises:
  "(CHR '':'' \<notin> set spec \<longrightarrow>
      parse_address_spec spec = Inl (ValueError (Not_enough_values 2 1)))
   \<and> (CHR '':'' \<notin> set protocol \<and> protocol \<notin> {''unix'', ''tcp'', ''tcp6''} \<longrightarrow>
      parse_address_spec (protocol @ '':'' @ rest)
        = Inl (ValueError (Unknown_protocol (protocol @ '':'' @ rest))))
   \<and> (protocol \<in> {''tcp'', ''tcp6''} \<and> CHR '':'' \<notin> set rest \<longrightarrow>
      parse_address_spec (protocol @ '':'' @ rest) = Inl (ValueError (Not_enough_values 2 1)))
   \<and> (protocol \<in> {''tcp'', ''tcp6''} \<and> CHR '':'' \<notin> set port
        \<and> ((\<forall>c\<in>set port. \<not> is_digit c)
           \<or> (\<exists>c\<in>set port. \<not> is_digit c \<and> \<not> int_isspace c
                  \<and> c \<noteq> CHR ''+'' \<and> c \<noteq> CHR ''-'' \<and> c \<noteq> CHR ''_'')) \<longrightarrow>
      parse_address_spec (protocol @ '':'' @ host @ '':'' @ port)
        = Inl (ValueError (Invalid_literal port)))"
proof (intro conjI impI)
  show "parse_address_spec spec = Inl (ValueError (Not_enough_values 2 1))"
    if "CHR '':'' \<notin> set spec"
    using that by (simp add: parse_address_spec_def str_split1_none unpack2_def)
  show "parse_address_spec (protocol @ '':'' @ rest)
        = Inl (ValueError (Unknown_protocol (protocol @ '':'' @ rest)))"
    if "CHR '':'' \<notin> set protocol \<and> protocol \<notin> {''unix'', ''tcp'', ''tcp6''}"
    using that str_split1_first[of "CHR '':''" protocol rest]
    by (simp add: parse_address_spec_def unpack2_def)
  show "parse_address_spec (protocol @ '':'' @ rest) = Inl (ValueError (Not_enough_values 2 1))"
    if "protocol \<in> {''tcp'', ''tcp6''} \<and> CHR '':'' \<notin> set rest"
  proof -
    have "CHR '':'' \<notin> set protocol" using that by auto
    then have "str_split1 CHR '':'' (protocol @ CHR '':'' # rest) = [protocol, rest]"
      by (rule str_split1_first)
    then show ?thesis
      using that by (auto simp: parse_address_spec_def unpack2_def str_rsplit1_none)
  qed
  show "parse_address_spec (protocol @ '':'' @ host @ '':'' @ port)
        = Inl (ValueError (Invalid_literal port))"
    if h: "protocol \<in> {''tcp'', ''tcp6''} \<and> CHR '':'' \<notin> set port
        \<and> ((\<forall>c\<in>set port. \<not> is_digit c)
           \<or> (\<exists>c\<in>set port. \<not> is_digit c \<and> \<not> int_isspace c
                  \<and> c \<noteq> CHR ''+'' \<and> c \<noteq> CHR ''-'' \<and> c \<noteq> CHR ''_''))"
  proof -
    have "CHR '':'' \<notin> set protocol" using h by auto
    then have s: "str_split1 CHR '':'' (protocol @ CHR '':'' # host @ CHR '':'' # port)
                  = [protocol, host @ CHR '':'' # port]"
      by (rule str_split1_first)
    have r: "str_rsplit1 CHR '':'' (host @ CHR '':'' # port) = [host, port]"
      using h by (simp add: str_rsplit1_last)
    have i: "py_int port = Inl (ValueError (Invalid_literal port))"
      using h py_int_no_digit py_int_foreign_char by blast
    show ?thesis
      using h s r i by (auto simp: parse_address_spec_def unpack2_def)
  qed
qed

lemma parse_address_spec_raises_examples:
  "parse_address_spec ''tcp'' = Inl (ValueError (Not_enough_values 2 1))
   \<and> parse_address_spec ''foo:bar'' = Inl (ValueError (Unknown_protocol ''foo:bar''))
   \<and> parse_address_spec ''tcp:1234'' = Inl (ValueError (Not_enough_values 2 1))
   \<and> parse_address_spec ''tcp:host:notanumber'' = Inl (ValueError (Invalid_literal ''notanumber''))"
  using parse_address_spec_raises [of "''tcp''" "''foo''" "''bar''" "''notanumber''" "''host''"]
    parse_address_spec_raises [of "''tcp''" "''tcp''" "''1234''" "''notanumber''" "''host''"]
  by (simp add: is_digit_def int_isspace_def)

text \<open>
  Claim C4.  Every specification with an unknown protocol or a malformed rest fails
  with an error that carries the offending string, and the parser has no side effect.
  The parser does fail on each of them, with a \<open>ValueError\<close>, and it has no effect on any
  state.  But only the branch for an unknown protocol puts the specification into the
  error, as for \<open>foo:bar\<close>.  For \<open>tcp:1234\<close> the error comes from unpacking the
  one-element result of \<open>rsplit\<close>, and for \<open>tcp\<close> from unpacking the one-element result
  of \<open>split\<close>: its message quotes no part of the input.
\<close>

theorem parse_address_spec_error_without_text:
  "parse_address_spec ''tcp:1234'' = Inl (ValueError (Not_enough_values 2 1))
   \<and> quoted_text (Not_enough_values 2 1) = None
   \<and> parse_address_spec ''tcp'' = Inl (ValueError (Not_enough_values 2 1))
   \<and> parse_address_spec ''foo:bar'' = Inl (ValueError (Unknown_protocol ''foo:bar''))
   \<and> quoted_text (Unknown_protocol ''foo:bar'') = Some ''foo:bar''"
  by (simp add: parse_address_spec_def unpack2_def str_split1_def str_rsplit1_def quoted_text_def)

section \<open>Properties of the candidate paths\<close>

lemma yield_paths_filter:
  "yield_paths os w home name ext candidates =
     map (\<lambda>loc. path_join loc ((if loc = home then ''.'' else []) @ name @ ext))
       (filter (\<lambda>loc. os_access os loc {W_OK, R_OK, X_OK} w) candidates)"
  by (induction candidates) simp_all

lemma path_join_suffix:
  "\<exists>dir. path_join loc (f @ ''.lock'') = dir @ f @ ''.lock'' \<and>
         path_join loc (f @ ''.sock'') = dir @ f @ ''.sock''"
  by (cases f) (simp_all add: path_join_def startswith_def)

lemma socket_path_of_lock: "socket_path_of (x @ ''.lock'') = x @ ''.sock''"
proof -
  have "str_rpartition CHR ''.'' (x @ CHR ''.'' # ''lock'') = (x, ''.'', ''lock'')"
    by (rule str_rpartition_last) simp
  then show ?thesis by (simp add: socket_path_of_def)
qed

lemma socket_path_of_join:
  "socket_path_of (path_join loc (f @ ''.lock'')) = path_join loc (f @ ''.sock'')"
proof -
  obtain dir where d: "path_join loc (f @ ''.lock'') = dir @ f @ ''.lock''"
    "path_join loc (f @ ''.sock'') = dir @ f @ ''.sock''"
    using path_join_suffix by blast
  have "socket_path_of ((dir @ f) @ ''.lock'') = (dir @ f) @ ''.sock''"
    by (rule socket_path_of_lock)
  then show ?thesis using d by simp
qed

lemma unix_socket_paths_lock_suffix:
  assumes "unix_socket_paths k os name ''.lock'' w = Inr ps" and "p \<in> set ps"
  shows "\<exists>x. p = x @ ''.lock''"
proof -
  obtain cands home where "ps = yield_paths os w home name ''.lock'' cands"
    using assms(1) by (auto simp: unix_socket_paths_def Let_def split: sum.splits)
  then obtain loc where "p = path_join loc ((if loc = home then ''.'' else []) @ name @ ''.lock'')"
    using assms(2) by (auto simp: yield_paths_filter)
  then have "p = path_join loc (((if loc = home then ''.'' else []) @ name) @ ''.lock'')"
    by simp
  then show ?thesis
    using path_join_suffix[of loc "(if loc = home then ''.'' else []) @ name"]
    by (metis append.assoc)
qed

lemma socket_path_differs:
  assumes "unix_socket_paths k os name ''.lock'' w = Inr (p # ps)"
  shows "socket_path_of p \<noteq> p"
proof -
  obtain x where "p = x @ ''.lock''"
    using unix_socket_paths_lock_suffix[OF assms, of p] by auto
  then show ?thesis by (simp add: socket_path_of_lock)
qed

lemma example_paths:
  assumes "gettempdir os w = Inr ''/tmp''" and "expanduser_home os w = ''/home/u''"
    and "os_access os ''/tmp'' {W_OK, R_OK, X_OK} w"
    and "os_access os ''/home/u'' {W_OK, R_OK, X_OK} w"
  shows "unix_socket_paths kitty os ''kitty-ipc-1000'' ''.lock'' w =
           Inr [''/tmp/kitty-ipc-1000.lock'', ''/home/u/.kitty-ipc-1000.lock'']"
  using assms
  by (simp add: unix_socket_paths_def kitty_def path_join_def startswith_def endswith_def)

lemma example_socket_path:
  "socket_path_of ''/tmp/kitty-ipc-1000.lock'' = ''/tmp/kitty-ipc-1000.sock''"
  using socket_path_of_lock[of "''/tmp/kitty-ipc-1000''"] by simp

lemma example_socket_path_home:
  "socket_path_of ''/home/u/.kitty-ipc-1000.lock'' = ''/home/u/.kitty-ipc-1000.sock''"
  using socket_path_of_lock[of "''/home/u/.kitty-ipc-1000''"] by simp

lemma example_name: "instance_name kitty 1000 None = ''kitty-ipc-1000''"
  by code_simp

text \<open>
  Claim C8.  \<open>unix_socket_paths\<close> yields its paths in a fixed order of preference: on
  macOS the user's cache directory and then \<open>/Library/Caches\<close>, elsewhere the temporary
  directory and then the home directory.  Only the directories that pass the access
  check for writing, reading and executing are kept, in that order.  The file name is
  the name followed by the extension, after a dot exactly when the directory is the
  home directory.  The socket path that \<open>single_instance_unix\<close> derives from a lock path
  is the same path with \<open>.sock\<close> in place of \<open>.lock\<close>.
\<close>

theorem unix_socket_paths_order:
  assumes "gettempdir os w = Inr tmp"
  shows "unix_socket_paths k os name ext w =
           Inr (map (\<lambda>loc. path_join loc
                      ((if loc = expanduser_home os w then ''.'' else []) @ name @ ext))
                 (filter (\<lambda>loc. os_access os loc {W_OK, R_OK, X_OK} w)
                    (if is_macos k then [user_cache_dir os w, ''/Library/Caches'']
                     else [tmp, expanduser_home os w])))
         \<and> socket_path_of (path_join loc (filename @ ''.lock''))
             = path_join loc (filename @ ''.sock'')"
  using assms
  by (simp add: unix_socket_paths_def yield_paths_filter socket_path_of_join Let_def)

theorem unix_socket_paths_order_witness:
  "unix_socket_paths kitty reference_os ''kitty-ipc-1000'' ''.lock'' fresh_kernel =
     Inr [''/tmp/kitty-ipc-1000.lock'', ''/home/u/.kitty-ipc-1000.lock'']
   \<and> unix_socket_paths \<lparr>appname = ''kitty'', is_macos = True\<rparr> reference_os ''kitty-ipc-1000'' ''.lock''
         (fresh_kernel\<lparr>k_accessible := (\<lambda>p. p = ''/Library/Caches'')\<rparr>) =
     Inr [''/Library/Caches/kitty-ipc-1000.lock'']
   \<and> socket_path_of (path_join ''/home/u'' (''.kitty-ipc-1000'' @ ''.lock''))
       = ''/home/u/.kitty-ipc-1000.sock''"
  using unix_socket_paths_order[where os = reference_os and w = fresh_kernel and tmp = "''/tmp''"
      and k = kitty and name = "''kitty-ipc-1000''" and ext = "''.lock''" and loc = "''/home/u''"
      and filename = "''.kitty-ipc-1000''"]
    unix_socket_paths_order[where os = reference_os
      and w = "fresh_kernel\<lparr>k_accessible := (\<lambda>p. p = ''/Library/Caches'')\<rparr>"
      and tmp = "''/tmp''" and k = "\<lparr>appname = ''kitty'', is_macos = True\<rparr>"
      and name = "''kitty-ipc-1000''" and ext = "''.lock''" and loc = "''/home/u''"
      and filename = "''.kitty-ipc-1000''"]
  by (simp add: reference_os_def fresh_kernel_def kitty_def path_join_def startswith_def
      endswith_def)

section \<open>The control flow of \<open>single_instance_unix\<close>\<close>

text \<open>
  These lemmas hold for every instance of the operating system interface.  They follow
  the body of the loop through its calls, one outcome at a time.
\<close>

lemma single_instance_unix_first:
  assumes "unix_socket_paths k os name ''.lock'' (world st) = Inr (path # rest)"
  shows "single_instance_unix k os name st =
           (case single_instance_unix_body os path st of
              (Return b, st1) \<Rightarrow> (Return (Some b), st1)
            | (Raise e, st1) \<Rightarrow> (Raise e, st1))"
  using assms by (simp add: single_instance_unix_def)

lemma body_open_failed:
  assumes "os_open os path {O_CREAT, O_WRONLY, O_TRUNC, O_CLOEXEC} (world st) = Inl e"
  shows "single_instance_unix_body os path st = (Raise (OSError e), st)"
  using assms by (simp add: single_instance_unix_body_def seq_def syscall_def Let_def)

lemma body_lock_denied:
  assumes "os_open os path {O_CREAT, O_WRONLY, O_TRUNC, O_CLOEXEC} (world st) = Inr (fd, w1)"
    and "lockf os fd {LOCK_EX, LOCK_NB} w1 = Inl err"
  shows "single_instance_unix_body os path st =
     (if err \<in> {EAGAIN, EACCES} then
        (case socket_socket os AF_UNIX w1 of
           Inl e \<Rightarrow> (Raise (OSError e), st\<lparr>world := w1\<rparr>)
         | Inr (s, w2) \<Rightarrow>
            (case sock_connect os s (socket_path_of path) w2 of
               Inl e \<Rightarrow> (Raise (OSError e), st\<lparr>world := w2\<rparr>)
             | Inr (_, w3) \<Rightarrow>
                 (Return False, st\<lparr>single_instance_socket := Some s, world := w3\<rparr>)))
      else (Raise (OSError err), st\<lparr>world := w1\<rparr>))"
  using assms
  by (simp add: single_instance_unix_body_def seq_def syscall_def Let_def split: sum.splits prod.splits)

lemma body_socket_failed:
  assumes "os_open os path {O_CREAT, O_WRONLY, O_TRUNC, O_CLOEXEC} (world st) = Inr (fd, w1)"
    and "lockf os fd {LOCK_EX, LOCK_NB} w1 = Inr (u, w2)"
    and "socket_socket os AF_UNIX w2 = Inl e"
  shows "single_instance_unix_body os path st = (Raise (OSError e), st\<lparr>world := w2\<rparr>)"
  using assms
  by (simp add: single_instance_unix_body_def seq_def syscall_def Let_def)

lemma body_lock_obtained:
  assumes "os_open os path {O_CREAT, O_WRONLY, O_TRUNC, O_CLOEXEC} (world st) = Inr (fd, w1)"
    and "lockf os fd {LOCK_EX, LOCK_NB} w1 = Inr (u, w2)"
    and "socket_socket os AF_UNIX w2 = Inr (s, w3)"
  shows "single_instance_unix_body os path st =
     seq (\<lambda>st3.
            case sock_bind os s (socket_path_of path) (world st3) of
              Inl err \<Rightarrow>
                if err \<in> {EADDRINUSE, EEXIST} then
                  seq (syscall (os_unlink os (socket_path_of path)))
                    (\<lambda>_. syscall (sock_bind os s (socket_path_of path))) st3
                else (Raise (OSError err), st3)
            | Inr (_, w4) \<Rightarrow> (Return (), st3\<lparr>world := w4\<rparr>))
         (\<lambda>_ st5.
            seq (syscall (sock_listen os s))
              (\<lambda>_. seq (syscall (sock_set_inheritable os s False))
                (\<lambda>_ st7. (Return True, st7)))
              (st5\<lparr>single_instance_socket := Some s,
                   atexit_registry := (s, Some (socket_path_of path)) # atexit_registry st5\<rparr>))
         (st\<lparr>world := w3\<rparr>)"
  using assms
  by (simp add: single_instance_unix_body_def seq_def syscall_def Let_def)

lemma body_never_none:
  "fst (case single_instance_unix_body os path st of
          (Return b, st1) \<Rightarrow> (Return (Some b), st1)
        | (Raise e, st1) \<Rightarrow> (Raise e, st1)) \<noteq> Return None"
  by (simp split: prod.splits outcome.splits)

lemma stale_bind_flow:
  assumes "unix_socket_paths k os name ''.lock'' (world st) = Inr (path # rest)"
    and "os_open os path {O_CREAT, O_WRONLY, O_TRUNC, O_CLOEXEC} (world st) = Inr (fd, w1)"
    and "lockf os fd {LOCK_EX, LOCK_NB} w1 = Inr (u, w2)"
    and "socket_socket os AF_UNIX w2 = Inr (s, w3)"
    and "sock_bind os s (socket_path_of path) w3 = Inl err"
    and "err \<in> {EADDRINUSE, EEXIST}"
  shows "single_instance_unix k os name st =
     (case os_unlink os (socket_path_of path) w3 of
        Inl e \<Rightarrow> (Raise (OSError e), st\<lparr>world := w3\<rparr>)
      | Inr (_, w4) \<Rightarrow>
          (case sock_bind os s (socket_path_of path) w4 of
             Inl e \<Rightarrow> (Raise (OSError e), st\<lparr>world := w4\<rparr>)
           | Inr (_, w5) \<Rightarrow>
               (case sock_listen os s w5 of
                  Inl e \<Rightarrow>
                    (Raise (OSError e),
                     st\<lparr>single_instance_socket := Some s,
                        atexit_registry := (s, Some (socket_path_of path)) # atexit_registry st,
                        world := w5\<rparr>)
                | Inr (_, w6) \<Rightarrow>
                    (case sock_set_inheritable os s False w6 of
                       Inl e \<Rightarrow>
                         (Raise (OSError e),
                          st\<lparr>single_instance_socket := Some s,
                             atexit_registry := (s, Some (socket_path_of path)) # atexit_registry st,
                             world := w6\<rparr>)
                     | Inr (_, w7) \<Rightarrow>
                         (Return (Some True),
                          st\<lparr>single_instance_socket := Some s,
                             atexit_registry := (s, Some (socket_path_of path)) # atexit_registry st,
                             world := w7\<rparr>)))))"
  unfolding single_instance_unix_first[OF assms(1)] body_lock_obtained[OF assms(2,3,4)]
  using assms(5,6)
  by (simp add: seq_def syscall_def split: sum.splits prod.splits)

lemma body_primary_registers:
  assumes "single_instance_unix_body os path st = (Return True, st')"
  shows "\<exists>s. single_instance_socket st' = Some s
             \<and> atexit_registry st' = (s, Some (socket_path_of path)) # atexit_registry st"
proof (cases "os_open os path {O_CREAT, O_WRONLY, O_TRUNC, O_CLOEXEC} (world st)")
  case (Inl e)
  then show ?thesis using assms by (simp add: body_open_failed)
next
  case (Inr r)
  then obtain fd w1 where opened:
    "os_open os path {O_CREAT, O_WRONLY, O_TRUNC, O_CLOEXEC} (world st) = Inr (fd, w1)"
    by (cases r) simp
  show ?thesis
  proof (cases "lockf os fd {LOCK_EX, LOCK_NB} w1")
    case (Inl err)
    show ?thesis
      using assms unfolding body_lock_denied[OF opened Inl]
      by (simp split: if_splits sum.splits prod.splits)
  next
    case (Inr r2)
    then obtain u w2 where locked: "lockf os fd {LOCK_EX, LOCK_NB} w1 = Inr (u, w2)"
      by (cases r2) simp
    show ?thesis
    proof (cases "socket_socket os AF_UNIX w2")
      case (Inl e)
      show ?thesis using assms unfolding body_socket_failed[OF opened locked Inl] by simp
    next
      case (Inr r3)
      then obtain s w3 where created: "socket_socket os AF_UNIX w2 = Inr (s, w3)"
        by (cases r3) simp
      show ?thesis
        using assms unfolding body_lock_obtained[OF opened locked created]
        by (auto simp: seq_def syscall_def split: sum.splits prod.splits if_splits)
    qed
  qed
qed

text \<open>
  When no candidate passes the access check the loop body never runs: the function ends
  without a \<open>return\<close> statement and its value is \<open>None\<close>.
\<close>

lemma single_instance_unix_no_candidate:
  assumes "gettempdir os (world st) = Inr tmp"
    and "filter (\<lambda>loc. os_access os loc {W_OK, R_OK, X_OK} (world st))
           (if is_macos k then [user_cache_dir os (world st), ''/Library/Caches'']
            else [tmp, expanduser_home os (world st)]) = []"
  shows "single_instance_unix k os name st = (Return None, st)"
  using assms
  by (simp add: single_instance_unix_def unix_socket_paths_def yield_paths_filter Let_def)

section \<open>Effects on the reference kernel\<close>

lemmas kernel_defs = reference_os_def k_open_def k_lockf_def k_unlink_def k_socket_def
  k_bind_def k_listen_def k_connect_def k_set_inheritable_def k_close_def

lemma kernel_primary:
  assumes "world st = w"
    and "k_open_error w p = None"
    and "k_files w p = None \<or> k_files w p = Some Regular_file"
    and "k_lock_holder w p \<noteq> Some Other_process"
    and "\<not> is_abstract (socket_path_of p)"
    and "socket_path_of p \<noteq> p"
  shows "single_instance_unix_body reference_os p st =
     (Return True,
      st\<lparr>single_instance_socket := Some (k_next_sock w),
         atexit_registry := (k_next_sock w, Some (socket_path_of p)) # atexit_registry st,
         world := w\<lparr>k_files := (k_files w)(p \<mapsto> Regular_file,
                                   socket_path_of p \<mapsto> Socket_file (k_next_sock w)),
                    k_descriptors := (k_descriptors w)(k_next_fd w \<mapsto> p),
                    k_lock_holder := (k_lock_holder w)(p \<mapsto> This_process),
                    k_sockets := (k_sockets w)(k_next_sock w \<mapsto> Listening (socket_path_of p)),
                    k_next_fd := Suc (k_next_fd w),
                    k_next_sock := Suc (k_next_sock w)\<rparr>\<rparr>)"
proof -
  define w1 where "w1 = w\<lparr>k_files := (k_files w)(p \<mapsto> Regular_file),
                    k_descriptors := (k_descriptors w)(k_next_fd w \<mapsto> p),
                    k_next_fd := Suc (k_next_fd w)\<rparr>"
  define w2 where "w2 = w1\<lparr>k_lock_holder := (k_lock_holder w)(p \<mapsto> This_process)\<rparr>"
  define s where "s = k_next_sock w"
  define w3 where "w3 = w2\<lparr>k_sockets := (k_sockets w)(s \<mapsto> Unbound), k_next_sock := Suc s\<rparr>"
  have opened: "os_open reference_os p {O_CREAT, O_WRONLY, O_TRUNC, O_CLOEXEC} (world st)
                  = Inr (k_next_fd w, w1)"
    using assms(1,2,3) by (auto simp: reference_os_def k_open_def w1_def fun_upd_idem)
  have locked: "lockf reference_os (k_next_fd w) {LOCK_EX, LOCK_NB} w1 = Inr ((), w2)"
    using assms(4) by (cases "k_lock_holder w p")
      (auto simp: reference_os_def k_lockf_def w1_def w2_def split: owner.splits)
  have created: "socket_socket reference_os AF_UNIX w2 = Inr (s, w3)"
    by (simp add: reference_os_def k_socket_def w1_def w2_def w3_def s_def)
  show ?thesis
    unfolding body_lock_obtained[OF opened locked created]
    using assms(5,6)
    by (simp add: seq_def syscall_def kernel_defs w1_def w2_def w3_def s_def
        split: option.splits)
qed

lemma kernel_single_instance_unix_primary:
  assumes "unix_socket_paths k reference_os name ''.lock'' (world st) = Inr (p # ps)"
    and "k_open_error (world st) p = None"
    and "k_files (world st) p = None \<or> k_files (world st) p = Some Regular_file"
    and "k_lock_holder (world st) p \<noteq> Some Other_process"
    and "\<not> is_abstract (socket_path_of p)"
  shows "single_instance_unix k reference_os name st =
     (Return (Some True),
      st\<lparr>single_instance_socket := Some (k_next_sock (world st)),
         atexit_registry := (k_next_sock (world st), Some (socket_path_of p)) # atexit_registry st,
         world := (world st)
                   \<lparr>k_files := (k_files (world st))(p \<mapsto> Regular_file,
                                   socket_path_of p \<mapsto> Socket_file (k_next_sock (world st))),
                    k_descriptors := (k_descriptors (world st))(k_next_fd (world st) \<mapsto> p),
                    k_lock_holder := (k_lock_holder (world st))(p \<mapsto> This_process),
                    k_sockets := (k_sockets (world st))
                                   (k_next_sock (world st) \<mapsto> Listening (socket_path_of p)),
                    k_next_fd := Suc (k_next_fd (world st)),
                    k_next_sock := Suc (k_next_sock (world st))\<rparr>\<rparr>)"
  unfolding single_instance_unix_first[OF assms(1)]
    kernel_primary[OF refl assms(2,3,4,5) socket_path_differs[OF assms(1)]]
  by simp

lemma remove_socket_file_returns: "fst (remove_socket_file os s path st) = Return ()"
  by (simp add: remove_socket_file_def seq_def syscall_def suppress_OSError_def
      split: sum.splits prod.splits option.splits outcome.splits exc.splits)

lemma remove_socket_file_world:
  "world (snd (remove_socket_file os s path st)) =
     (let w1 = (case sock_close os s (world st) of Inl e \<Rightarrow> world st | Inr (u, w) \<Rightarrow> w)
      in case path of
           None \<Rightarrow> w1
         | Some p \<Rightarrow>
             if p = [] then w1
             else (case os_unlink os p w1 of Inl e \<Rightarrow> w1 | Inr (u, w) \<Rightarrow> w))"
  by (simp add: remove_socket_file_def seq_def syscall_def suppress_OSError_def Let_def
      split: sum.splits prod.splits option.splits outcome.splits exc.splits)

lemma kernel_remove_socket_file_files:
  "k_files (world (snd (remove_socket_file reference_os s path st))) =
     (case path of
        None \<Rightarrow> k_files (world st)
      | Some p \<Rightarrow> if p = [] then k_files (world st) else (k_files (world st))(p := None))"
  unfolding remove_socket_file_world
  by (auto simp: reference_os_def k_close_def k_unlink_def Let_def
      split: option.splits sum.splits)

lemma kernel_remove_socket_file_frame:
  "k_descriptors (world (snd (remove_socket_file reference_os s path st))) = k_descriptors (world st)
   \<and> k_lock_holder (world (snd (remove_socket_file reference_os s path st))) = k_lock_holder (world st)"
  unfolding remove_socket_file_world
  by (auto simp: reference_os_def k_close_def k_unlink_def Let_def
      split: option.splits sum.splits)

section \<open>Lock denied: the secondary instance\<close>

text \<open>
  Claim C7.  In \<open>single_instance_unix\<close>, when the lock file of the first yielded path has
  been opened and the non-blocking exclusive lock is refused with \<open>EAGAIN\<close> or \<open>EACCES\<close>,
  the process creates a socket, connects it to the socket path beside that lock file and
  returns \<open>False\<close>, with the connected socket kept in \<open>SingleInstance.socket\<close>; an
  \<open>OSError\<close> of the socket creation or of the connect is raised to the caller.  The
  result does not depend on the remaining candidate paths: the lock is never tried
  against another directory.  Any other failure of the lock is raised to the caller.
\<close>

theorem lock_denied_connects_without_retry:
  assumes "unix_socket_paths k os name ''.lock'' (world st) = Inr (path # rest)"
    and "os_open os path {O_CREAT, O_WRONLY, O_TRUNC, O_CLOEXEC} (world st) = Inr (fd, w1)"
    and "lockf os fd {LOCK_EX, LOCK_NB} w1 = Inl err"
  shows "single_instance_unix k os name st =
     (if err \<in> {EAGAIN, EACCES} then
        (case socket_socket os AF_UNIX w1 of
           Inl e \<Rightarrow> (Raise (OSError e), st\<lparr>world := w1\<rparr>)
         | Inr (s, w2) \<Rightarrow>
            (case sock_connect os s (socket_path_of path) w2 of
               Inl e \<Rightarrow> (Raise (OSError e), st\<lparr>world := w2\<rparr>)
             | Inr (_, w3) \<Rightarrow>
                 (Return (Some False), st\<lparr>single_instance_socket := Some s, world := w3\<rparr>)))
      else (Raise (OSError err), st\<lparr>world := w1\<rparr>))"
  unfolding single_instance_unix_first[OF assms(1)] body_lock_denied[OF assms(2,3)]
  by (simp split: sum.splits prod.splits)

theorem lock_denied_connects_without_retry_witness:
  "fst (single_instance_unix kitty reference_os ''kitty-ipc-1000'' (start live_primary))
     = Return (Some False)
   \<and> single_instance_socket
        (snd (single_instance_unix kitty reference_os ''kitty-ipc-1000'' (start live_primary)))
     = Some 8
   \<and> k_sockets
        (world (snd (single_instance_unix kitty reference_os ''kitty-ipc-1000''
                       (start live_primary)))) 8
     = Some (Connected ''/tmp/kitty-ipc-1000.sock'')
   \<and> fst (single_instance_unix kitty (reference_os\<lparr>lockf := (\<lambda>d ops w. Inl EINVAL)\<rparr>)
            ''kitty-ipc-1000'' (start fresh_kernel))
     = Raise (OSError EINVAL)"
proof -
  let ?p = "''/tmp/kitty-ipc-1000.lock''"
  let ?flags = "{O_CREAT, O_WRONLY, O_TRUNC, O_CLOEXEC}"
  define w1 where "w1 = live_primary\<lparr>k_descriptors := (k_descriptors live_primary)(3 \<mapsto> ?p),
                                     k_next_fd := 4\<rparr>"
  have paths: "unix_socket_paths kitty reference_os ''kitty-ipc-1000'' ''.lock''
                 (world (start live_primary)) = Inr [?p, ''/home/u/.kitty-ipc-1000.lock'']"
    by (rule example_paths) (simp_all add: reference_os_def start_def live_primary_def fresh_kernel_def)
  have opened: "os_open reference_os ?p ?flags (world (start live_primary)) = Inr (3, w1)"
    by (simp add: reference_os_def k_open_def start_def live_primary_def fresh_kernel_def w1_def)
  have denied: "lockf reference_os 3 {LOCK_EX, LOCK_NB} w1 = Inl EAGAIN"
    by (simp add: reference_os_def k_lockf_def live_primary_def fresh_kernel_def w1_def)
  note a = lock_denied_connects_without_retry[OF paths opened denied]
  let ?os = "reference_os\<lparr>lockf := (\<lambda>d ops w. Inl EINVAL)\<rparr>"
  define v1 where "v1 = fresh_kernel\<lparr>k_files := (k_files fresh_kernel)(?p \<mapsto> Regular_file),
                                     k_descriptors := (k_descriptors fresh_kernel)(3 \<mapsto> ?p),
                                     k_next_fd := 4\<rparr>"
  have paths': "unix_socket_paths kitty ?os ''kitty-ipc-1000'' ''.lock''
                 (world (start fresh_kernel)) = Inr [?p, ''/home/u/.kitty-ipc-1000.lock'']"
    by (rule example_paths) (simp_all add: reference_os_def start_def fresh_kernel_def)
  have opened': "os_open ?os ?p ?flags (world (start fresh_kernel)) = Inr (3, v1)"
    by (simp add: reference_os_def k_open_def start_def fresh_kernel_def v1_def)
  have denied': "lockf ?os 3 {LOCK_EX, LOCK_NB} v1 = Inl EINVAL"
    by simp
  note b = lock_denied_connects_without_retry[OF paths' opened' denied']
  show ?thesis
    unfolding a b
    by (simp add: example_socket_path reference_os_def k_socket_def k_connect_def is_abstract_def
        live_primary_def fresh_kernel_def w1_def start_def)
qed

section \<open>Candidate directories that cannot be used\<close>

text \<open>
  Claim C5, as the code has it.  A candidate directory that fails the access check is
  skipped in favour of the next one.  The first directory that passes the check is the
  only one that is tried: the result of \<open>single_instance_unix\<close> is the result of the
  loop body on the path in that directory, whatever the later candidates are.  So the
  attempt ends with \<open>True\<close>, \<open>False\<close> or an exception, and a failure of a call made for
  that directory (here: of opening the lock file) is raised to the caller at once
  instead of being recovered by moving on to the next candidate.
\<close>

theorem first_usable_candidate_only:
  assumes "gettempdir os (world st) = Inr tmp"
    and "filter (\<lambda>loc. os_access os loc {W_OK, R_OK, X_OK} (world st))
           (if is_macos k then [user_cache_dir os (world st), ''/Library/Caches'']
            else [tmp, expanduser_home os (world st)]) = loc # others"
    and "path = path_join loc
           ((if loc = expanduser_home os (world st) then ''.'' else []) @ name @ ''.lock'')"
  shows "single_instance_unix k os name st =
           (case single_instance_unix_body os path st of
              (Return b, st1) \<Rightarrow> (Return (Some b), st1)
            | (Raise e, st1) \<Rightarrow> (Raise e, st1))
         \<and> fst (single_instance_unix k os name st) \<noteq> Return None
         \<and> (\<forall>e. os_open os path {O_CREAT, O_WRONLY, O_TRUNC, O_CLOEXEC} (world st) = Inl e
               \<longrightarrow> single_instance_unix k os name st = (Raise (OSError e), st))"
proof -
  have paths: "unix_socket_paths k os name ''.lock'' (world st) =
      Inr (path # map (\<lambda>loc. path_join loc
                      ((if loc = expanduser_home os (world st) then ''.'' else []) @ name @ ''.lock''))
                  others)"
    using assms by (simp add: unix_socket_paths_def yield_paths_filter Let_def)
  note first = single_instance_unix_first[OF paths]
  show ?thesis
    unfolding first using body_never_none[of os path st]
    by (simp add: body_open_failed)
qed

theorem first_usable_candidate_only_witness:
  "fst (single_instance_unix kitty reference_os ''kitty-ipc-1000''
          (start (fresh_kernel\<lparr>k_accessible := (\<lambda>p. p = ''/home/u'')\<rparr>))) \<noteq> Return None
   \<and> single_instance_unix kitty reference_os ''kitty-ipc-1000'' (start lock_file_denied)
       = (Raise (OSError EACCES), start lock_file_denied)"
proof -
  let ?flags = "{O_CREAT, O_WRONLY, O_TRUNC, O_CLOEXEC}"
  let ?st = "start (fresh_kernel\<lparr>k_accessible := (\<lambda>p. p = ''/home/u'')\<rparr>)"
  have tmp: "gettempdir reference_os (world ?st) = Inr ''/tmp''"
    by (simp add: reference_os_def start_def fresh_kernel_def)
  have usable: "filter (\<lambda>loc. os_access reference_os loc {W_OK, R_OK, X_OK} (world ?st))
           (if is_macos kitty then [user_cache_dir reference_os (world ?st), ''/Library/Caches'']
            else [''/tmp'', expanduser_home reference_os (world ?st)]) = [''/home/u'']"
    by (simp add: reference_os_def start_def fresh_kernel_def kitty_def)
  have path: "''/home/u/.kitty-ipc-1000.lock'' = path_join ''/home/u''
           ((if ''/home/u'' = expanduser_home reference_os (world ?st) then ''.'' else [])
              @ ''kitty-ipc-1000'' @ ''.lock'')"
    by (simp add: reference_os_def start_def fresh_kernel_def path_join_def startswith_def
        endswith_def)
  note a = first_usable_candidate_only[OF tmp usable path, THEN conjunct2, THEN conjunct1]
  let ?st' = "start lock_file_denied"
  have tmp': "gettempdir reference_os (world ?st') = Inr ''/tmp''"
    by (simp add: reference_os_def start_def lock_file_denied_def fresh_kernel_def)
  have usable': "filter (\<lambda>loc. os_access reference_os loc {W_OK, R_OK, X_OK} (world ?st'))
           (if is_macos kitty then [user_cache_dir reference_os (world ?st'), ''/Library/Caches'']
            else [''/tmp'', expanduser_home reference_os (world ?st')]) = [''/tmp'', ''/home/u'']"
    by (simp add: reference_os_def start_def lock_file_denied_def fresh_kernel_def kitty_def)
  have path': "''/tmp/kitty-ipc-1000.lock'' = path_join ''/tmp''
           ((if ''/tmp'' = expanduser_home reference_os (world ?st') then ''.'' else [])
              @ ''kitty-ipc-1000'' @ ''.lock'')"
    by (simp add: reference_os_def start_def lock_file_denied_def fresh_kernel_def path_join_def
        startswith_def endswith_def)
  have denied: "os_open reference_os ''/tmp/kitty-ipc-1000.lock'' ?flags (world ?st') = Inl EACCES"
    by (simp add: reference_os_def k_open_def start_def lock_file_denied_def fresh_kernel_def)
  note b = first_usable_candidate_only[OF tmp' usable' path', THEN conjunct2, THEN conjunct2,
      rule_format, OF denied]
  show ?thesis using a b by (rule conjI)
qed

text \<open>
  The claim as written says that a failure for one candidate directory is recovered by
  advancing to the next.  In \<open>lock_file_denied\<close> both \<open>/tmp\<close> and the home directory pass
  the access check and the lock file in \<open>/tmp\<close> cannot be opened: the function raises
  the \<open>EACCES\<close> of \<open>/tmp\<close>, although the loop body would return \<open>True\<close> on the path in
  the home directory.
\<close>

theorem failure_at_first_candidate_not_recovered:
  "unix_socket_paths kitty reference_os ''kitty-ipc-1000'' ''.lock'' lock_file_denied =
     Inr [''/tmp/kitty-ipc-1000.lock'', ''/home/u/.kitty-ipc-1000.lock'']
   \<and> fst (single_instance_unix kitty reference_os ''kitty-ipc-1000'' (start lock_file_denied))
       = Raise (OSError EACCES)
   \<and> fst (single_instance_unix_body reference_os ''/home/u/.kitty-ipc-1000.lock''
            (start lock_file_denied)) = Return True"
proof -
  let ?flags = "{O_CREAT, O_WRONLY, O_TRUNC, O_CLOEXEC}"
  have paths: "unix_socket_paths kitty reference_os ''kitty-ipc-1000'' ''.lock''
                 lock_file_denied = Inr [''/tmp/kitty-ipc-1000.lock'', ''/home/u/.kitty-ipc-1000.lock'']"
    by (rule example_paths) (simp_all add: reference_os_def lock_file_denied_def fresh_kernel_def)
  have w: "world (start lock_file_denied) = lock_file_denied" by (simp add: start_def)
  have "os_open reference_os ''/tmp/kitty-ipc-1000.lock'' ?flags (world (start lock_file_denied))
          = Inl EACCES"
    by (simp add: reference_os_def k_open_def start_def lock_file_denied_def fresh_kernel_def)
  then have first: "fst (single_instance_unix kitty reference_os ''kitty-ipc-1000''
                      (start lock_file_denied)) = Raise (OSError EACCES)"
    using paths by (simp add: single_instance_unix_first w body_open_failed)
  have second: "fst (single_instance_unix_body reference_os ''/home/u/.kitty-ipc-1000.lock''
            (start lock_file_denied)) = Return True"
    by (subst kernel_primary[where w = lock_file_denied])
      (simp_all add: start_def example_socket_path_home is_abstract_def lock_file_denied_def
        fresh_kernel_def)
  show ?thesis using paths first second by simp
qed

section \<open>A stale socket file\<close>

text \<open>
  Claim C6.  In \<open>single_instance_unix\<close>, when the lock has been obtained and binding the
  socket to the socket path fails with \<open>EADDRINUSE\<close> or \<open>EEXIST\<close>, the path is unlinked
  and the bind is tried once more; a failure of the unlink or of this second bind is
  raised to the caller, and there is no third bind.  After a successful second bind the
  function goes on as after a successful first one and returns \<open>True\<close>.  On the reference
  kernel, when the lock is free and a socket file of an earlier socket is still at the
  socket path, the function returns \<open>True\<close> and the path then names the new, listening
  socket of this process instead of the old one.
\<close>

theorem stale_socket_replaced:
  "(unix_socket_paths k os name ''.lock'' (world st) = Inr (path # rest)
    \<longrightarrow> os_open os path {O_CREAT, O_WRONLY, O_TRUNC, O_CLOEXEC} (world st) = Inr (fd, w1)
    \<longrightarrow> lockf os fd {LOCK_EX, LOCK_NB} w1 = Inr (u, w2)
    \<longrightarrow> socket_socket os AF_UNIX w2 = Inr (s, w3)
    \<longrightarrow> sock_bind os s (socket_path_of path) w3 = Inl err
    \<longrightarrow> err \<in> {EADDRINUSE, EEXIST}
    \<longrightarrow> single_instance_unix k os name st =
     (case os_unlink os (socket_path_of path) w3 of
        Inl e \<Rightarrow> (Raise (OSError e), st\<lparr>world := w3\<rparr>)
      | Inr (_, w4) \<Rightarrow>
          (case sock_bind os s (socket_path_of path) w4 of
             Inl e \<Rightarrow> (Raise (OSError e), st\<lparr>world := w4\<rparr>)
           | Inr (_, w5) \<Rightarrow>
               (case sock_listen os s w5 of
                  Inl e \<Rightarrow>
                    (Raise (OSError e),
                     st\<lparr>single_instance_socket := Some s,
                        atexit_registry := (s, Some (socket_path_of path)) # atexit_registry st,
                        world := w5\<rparr>)
                | Inr (_, w6) \<Rightarrow>
                    (case sock_set_inheritable os s False w6 of
                       Inl e \<Rightarrow>
                         (Raise (OSError e),
                          st\<lparr>single_instance_socket := Some s,
                             atexit_registry := (s, Some (socket_path_of path)) # atexit_registry st,
                             world := w6\<rparr>)
                     | Inr (_, w7) \<Rightarrow>
                         (Return (Some True),
                          st\<lparr>single_instance_socket := Some s,
                             atexit_registry := (s, Some (socket_path_of path)) # atexit_registry st,
                             world := w7\<rparr>))))))
   \<and> (unix_socket_paths k reference_os name ''.lock'' (world kst) = Inr (kpath # krest)
    \<longrightarrow> k_open_error (world kst) kpath = None
    \<longrightarrow> k_files (world kst) kpath = None \<or> k_files (world kst) kpath = Some Regular_file
    \<longrightarrow> k_lock_holder (world kst) kpath \<noteq> Some Other_process
    \<longrightarrow> \<not> is_abstract (socket_path_of kpath)
    \<longrightarrow> k_files (world kst) (socket_path_of kpath) = Some (Socket_file old)
    \<longrightarrow> old < k_next_sock (world kst)
    \<longrightarrow> fst (single_instance_unix k reference_os name kst) = Return (Some True)
      \<and> k_files (world (snd (single_instance_unix k reference_os name kst))) (socket_path_of kpath)
          = Some (Socket_file (k_next_sock (world kst)))
      \<and> k_files (world (snd (single_instance_unix k reference_os name kst))) (socket_path_of kpath)
          \<noteq> Some (Socket_file old)
      \<and> k_sockets (world (snd (single_instance_unix k reference_os name kst)))
            (k_next_sock (world kst)) = Some (Listening (socket_path_of kpath)))"
  (is "?flow \<and> ?kernel")
proof
  show ?flow
    using stale_bind_flow[of k os name st path rest fd w1 u w2 s w3 err] by blast
next
  show ?kernel
  proof (intro impI)
    assume h: "unix_socket_paths k reference_os name ''.lock'' (world kst) = Inr (kpath # krest)"
      "k_open_error (world kst) kpath = None"
      "k_files (world kst) kpath = None \<or> k_files (world kst) kpath = Some Regular_file"
      "k_lock_holder (world kst) kpath \<noteq> Some Other_process"
      "\<not> is_abstract (socket_path_of kpath)"
      and old: "old < k_next_sock (world kst)"
    note r = kernel_single_instance_unix_primary[OF h]
    show "fst (single_instance_unix k reference_os name kst) = Return (Some True)
      \<and> k_files (world (snd (single_instance_unix k reference_os name kst))) (socket_path_of kpath)
          = Some (Socket_file (k_next_sock (world kst)))
      \<and> k_files (world (snd (single_instance_unix k reference_os name kst))) (socket_path_of kpath)
          \<noteq> Some (Socket_file old)
      \<and> k_sockets (world (snd (single_instance_unix k reference_os name kst)))
            (k_next_sock (world kst)) = Some (Listening (socket_path_of kpath))"
      using old by (simp add: r)
  qed
qed

theorem stale_socket_replaced_witness:
  "fst (single_instance_unix kitty reference_os ''kitty-ipc-1000'' (start after_crash))
     = Return (Some True)
   \<and> k_files (world (snd (single_instance_unix kitty reference_os ''kitty-ipc-1000''
                             (start after_crash)))) ''/tmp/kitty-ipc-1000.sock''
     = Some (Socket_file 8)
   \<and> k_files after_crash ''/tmp/kitty-ipc-1000.sock'' = Some (Socket_file 7)"
proof -
  let ?p = "''/tmp/kitty-ipc-1000.lock''"
  let ?sp = "''/tmp/kitty-ipc-1000.sock''"
  let ?flags = "{O_CREAT, O_WRONLY, O_TRUNC, O_CLOEXEC}"
  let ?st = "start after_crash"
  define w1 where "w1 = after_crash\<lparr>k_descriptors := (k_descriptors after_crash)(3 \<mapsto> ?p),
                                    k_next_fd := 4\<rparr>"
  define w2 where "w2 = w1\<lparr>k_lock_holder := (k_lock_holder after_crash)(?p \<mapsto> This_process)\<rparr>"
  define w3 where "w3 = w2\<lparr>k_sockets := (k_sockets after_crash)(8 \<mapsto> Unbound), k_next_sock := 9\<rparr>"
  have paths: "unix_socket_paths kitty reference_os ''kitty-ipc-1000'' ''.lock'' (world ?st)
                 = Inr [?p, ''/home/u/.kitty-ipc-1000.lock'']"
    by (rule example_paths) (simp_all add: reference_os_def start_def after_crash_def fresh_kernel_def)
  have opened: "os_open reference_os ?p ?flags (world ?st) = Inr (3, w1)"
    by (simp add: reference_os_def k_open_def start_def after_crash_def fresh_kernel_def w1_def)
  have locked: "lockf reference_os 3 {LOCK_EX, LOCK_NB} w1 = Inr ((), w2)"
    by (simp add: reference_os_def k_lockf_def after_crash_def fresh_kernel_def w1_def w2_def)
  have created: "socket_socket reference_os AF_UNIX w2 = Inr (8, w3)"
    by (simp add: reference_os_def k_socket_def after_crash_def fresh_kernel_def w1_def w2_def
        w3_def)
  have refused: "sock_bind reference_os 8 (socket_path_of ?p) w3 = Inl EADDRINUSE"
    by (simp add: example_socket_path reference_os_def k_bind_def is_abstract_def after_crash_def
        fresh_kernel_def w1_def w2_def w3_def)
  have kind: "EADDRINUSE \<in> {EADDRINUSE, EEXIST}" by simp
  note flow = stale_socket_replaced[THEN conjunct1, rule_format,
      OF paths opened locked created refused kind]
  have h: "k_open_error (world ?st) ?p = None"
    "k_files (world ?st) ?p = None \<or> k_files (world ?st) ?p = Some Regular_file"
    "k_lock_holder (world ?st) ?p \<noteq> Some Other_process"
    "\<not> is_abstract (socket_path_of ?p)"
    "k_files (world ?st) (socket_path_of ?p) = Some (Socket_file 7)"
    "7 < k_next_sock (world ?st)"
    by (simp_all add: example_socket_path is_abstract_def start_def after_crash_def fresh_kernel_def)
  note kernel = stale_socket_replaced[THEN conjunct2, rule_format, OF paths h]
  have a: "fst (single_instance_unix kitty reference_os ''kitty-ipc-1000'' ?st) = Return (Some True)"
    unfolding flow
    by (simp add: example_socket_path reference_os_def k_unlink_def k_bind_def k_listen_def
        k_set_inheritable_def is_abstract_def after_crash_def fresh_kernel_def w1_def w2_def w3_def)
  have b: "k_files (world (snd (single_instance_unix kitty reference_os ''kitty-ipc-1000'' ?st))) ?sp
             = Some (Socket_file 8)"
    using kernel by (simp add: example_socket_path start_def after_crash_def)
  have c: "k_files after_crash ?sp = Some (Socket_file 7)"
    by (simp add: after_crash_def)
  show ?thesis using a b c by blast
qed

section \<open>A failed bind in the abstract namespace\<close>

text \<open>
  Claim C2.  In \<open>SingleInstance.__call__\<close>, when the bind to the abstract address fails,
  the error number decides what happens.  With \<open>EADDRINUSE\<close> the socket is connected to
  the same abstract address and the result is \<open>False\<close> (an \<open>OSError\<close> of the connect is
  raised to the caller).  With \<open>ENOENT\<close> the result is the result of
  \<open>single_instance_unix\<close> for the same name, unchanged.  Every other error is raised to
  the caller.
\<close>

theorem bind_failure_decides:
  assumes "name = instance_name k (os_geteuid os (world st)) group_id"
    and "socket_socket os AF_UNIX (world st) = Inr (s, w1)"
    and "sock_bind os s (CHR 0x00 # name) w1 = Inl err"
  shows "SingleInstance_call k os group_id st =
     (if err = EADDRINUSE then
        (case sock_connect os s (CHR 0x00 # name) w1 of
           Inl e \<Rightarrow> (Raise (OSError e), st\<lparr>world := w1\<rparr>)
         | Inr (_, w2) \<Rightarrow>
             (Return (Some False), st\<lparr>single_instance_socket := Some s, world := w2\<rparr>))
      else if err = ENOENT then single_instance_unix k os name (st\<lparr>world := w1\<rparr>)
      else (Raise (OSError err), st\<lparr>world := w1\<rparr>))"
  using assms
  by (simp add: SingleInstance_call_def seq_def syscall_def Let_def split: sum.splits prod.splits)

theorem bind_failure_decides_witness:
  "fst (SingleInstance_call kitty reference_os None (start abstract_taken)) = Return (Some False)
   \<and> SingleInstance_call kitty reference_os None (start fresh_kernel)
       = single_instance_unix kitty reference_os ''kitty-ipc-1000''
           (start (fresh_kernel\<lparr>k_sockets := (k_sockets fresh_kernel)(0 \<mapsto> Unbound),
                                 k_next_sock := 1\<rparr>))
   \<and> fst (SingleInstance_call kitty (reference_os\<lparr>sock_bind := (\<lambda>s a w. Inl EACCES)\<rparr>) None
            (start abstract_free)) = Raise (OSError EACCES)"
proof -
  define w1 where "w1 = abstract_taken\<lparr>k_sockets := (k_sockets abstract_taken)(0 \<mapsto> Unbound),
                                       k_next_sock := 1\<rparr>"
  have name: "''kitty-ipc-1000''
                = instance_name kitty (os_geteuid reference_os (world (start abstract_taken))) None"
    by (simp add: example_name reference_os_def start_def abstract_taken_def fresh_kernel_def)
  have created: "socket_socket reference_os AF_UNIX (world (start abstract_taken)) = Inr (0, w1)"
    by (simp add: reference_os_def k_socket_def start_def abstract_taken_def fresh_kernel_def w1_def)
  have in_use: "sock_bind reference_os 0 (CHR 0x00 # ''kitty-ipc-1000'') w1 = Inl EADDRINUSE"
    by (simp add: reference_os_def k_bind_def is_abstract_def abstract_taken_def fresh_kernel_def
        w1_def)
  have a: "fst (SingleInstance_call kitty reference_os None (start abstract_taken))
             = Return (Some False)"
    unfolding bind_failure_decides[OF name created in_use]
    by (simp add: reference_os_def k_connect_def abstract_taken_def fresh_kernel_def w1_def)
  define v1 where "v1 = fresh_kernel\<lparr>k_sockets := (k_sockets fresh_kernel)(0 \<mapsto> Unbound),
                                     k_next_sock := 1\<rparr>"
  have name': "''kitty-ipc-1000''
                = instance_name kitty (os_geteuid reference_os (world (start fresh_kernel))) None"
    by (simp add: example_name reference_os_def start_def fresh_kernel_def)
  have created': "socket_socket reference_os AF_UNIX (world (start fresh_kernel)) = Inr (0, v1)"
    by (simp add: reference_os_def k_socket_def start_def fresh_kernel_def v1_def)
  have unsupported: "sock_bind reference_os 0 (CHR 0x00 # ''kitty-ipc-1000'') v1 = Inl ENOENT"
    by (simp add: reference_os_def k_bind_def is_abstract_def fresh_kernel_def v1_def)
  have b: "SingleInstance_call kitty reference_os None (start fresh_kernel)
       = single_instance_unix kitty reference_os ''kitty-ipc-1000'' (start v1)"
    unfolding bind_failure_decides[OF name' created' unsupported]
    by (simp add: start_def)
  let ?os = "reference_os\<lparr>sock_bind := (\<lambda>s a w. Inl EACCES)\<rparr>"
  define u1 where "u1 = abstract_free\<lparr>k_sockets := (k_sockets abstract_free)(0 \<mapsto> Unbound),
                                     k_next_sock := 1\<rparr>"
  have name'': "''kitty-ipc-1000''
                = instance_name kitty (os_geteuid ?os (world (start abstract_free))) None"
    by (simp add: example_name reference_os_def start_def abstract_free_def fresh_kernel_def)
  have created'': "socket_socket ?os AF_UNIX (world (start abstract_free)) = Inr (0, u1)"
    by (simp add: reference_os_def k_socket_def start_def abstract_free_def fresh_kernel_def u1_def)
  have other: "sock_bind ?os 0 (CHR 0x00 # ''kitty-ipc-1000'') u1 = Inl EACCES"
    by simp
  have c: "fst (SingleInstance_call kitty ?os None (start abstract_free)) = Raise (OSError EACCES)"
    unfolding bind_failure_decides[OF name'' created'' other] by simp
  show ?thesis using a b c by (simp add: v1_def)
qed

section \<open>Cleanup never raises\<close>

text \<open>
  Claim C9.  The calls of the operating system raise \<open>OSError\<close> only, and
  \<open>remove_socket_file\<close> suppresses it at both places: whatever the close and the unlink
  do, the function returns, the first time and when it is called again.  It closes the
  socket and, when a non-empty path was given, unlinks it; a failed call leaves the
  world as it was.  On the reference kernel, where an unlink fails only when the path
  is absent, no file is left at the path afterwards, whether or not the path was
  there before and whether or not the socket was still open.
\<close>

theorem remove_socket_file_never_raises:
  "fst (remove_socket_file os s path st) = Return ()
   \<and> fst (remove_socket_file os s path (snd (remove_socket_file os s path st))) = Return ()
   \<and> world (snd (remove_socket_file os s path st)) =
       (let w1 = (case sock_close os s (world st) of Inl e \<Rightarrow> world st | Inr (u, w) \<Rightarrow> w)
        in case path of
             None \<Rightarrow> w1
           | Some p \<Rightarrow>
               if p = [] then w1
               else (case os_unlink os p w1 of Inl e \<Rightarrow> w1 | Inr (u, w) \<Rightarrow> w))
   \<and> (kp \<noteq> [] \<longrightarrow>
        k_files (world (snd (remove_socket_file reference_os ks (Some kp) kst))) kp = None)"
  using remove_socket_file_world[of os s path st]
  by (simp add: remove_socket_file_returns kernel_remove_socket_file_files)

theorem remove_socket_file_never_raises_witness:
  "k_files after_crash ''/tmp/kitty-ipc-1000.sock'' = Some (Socket_file 7)
   \<and> k_files (world (snd (remove_socket_file reference_os 8 (Some ''/tmp/kitty-ipc-1000.sock'')
                          (start after_crash)))) ''/tmp/kitty-ipc-1000.sock'' = None
   \<and> k_files (world (snd (remove_socket_file reference_os 8 (Some ''/tmp/kitty-ipc-1000.sock'')
                          (start fresh_kernel)))) ''/tmp/kitty-ipc-1000.sock'' = None
   \<and> fst (remove_socket_file reference_os 8 (Some ''/tmp/kitty-ipc-1000.sock'')
            (start fresh_kernel)) = Return ()"
proof -
  have ne: "''/tmp/kitty-ipc-1000.sock'' \<noteq> []" by simp
  note gone = remove_socket_file_never_raises[THEN conjunct2, THEN conjunct2, THEN conjunct2,
      rule_format, OF ne]
  note returns = remove_socket_file_never_raises[THEN conjunct1]
  have "k_files after_crash ''/tmp/kitty-ipc-1000.sock'' = Some (Socket_file 7)"
    by (simp add: after_crash_def)
  then show ?thesis using gone returns by blast
qed

section \<open>Cleanup leaves the lock file alone\<close>

text \<open>
  Claim C10.  When the loop body of \<open>single_instance_unix\<close> returns \<open>True\<close>, what it has
  registered for exit is \<open>remove_socket_file\<close> with the listening socket and the socket
  path, nothing else.  On the reference kernel, for a process with no other exit
  handler: after the acquisition and the run of the exit handlers the directory holds
  what it held before plus the lock file, and the socket path is gone; the descriptor of
  the lock file is still open and the lock is still held by this process.
\<close>

theorem cleanup_spares_lock_file:
  "(single_instance_unix_body os path st = (Return True, st')
    \<longrightarrow> (\<exists>s. single_instance_socket st' = Some s
             \<and> atexit_registry st' = (s, Some (socket_path_of path)) # atexit_registry st))
   \<and> (unix_socket_paths k reference_os name ''.lock'' (world kst) = Inr (kpath # krest)
      \<longrightarrow> k_open_error (world kst) kpath = None
      \<longrightarrow> k_files (world kst) kpath = None \<or> k_files (world kst) kpath = Some Regular_file
      \<longrightarrow> k_lock_holder (world kst) kpath \<noteq> Some Other_process
      \<longrightarrow> \<not> is_abstract (socket_path_of kpath)
      \<longrightarrow> atexit_registry kst = []
      \<longrightarrow> fst (single_instance_unix k reference_os name kst) = Return (Some True)
        \<and> k_files (world (at_exit reference_os (snd (single_instance_unix k reference_os name kst))))
            = (k_files (world kst))(kpath \<mapsto> Regular_file, socket_path_of kpath := None)
        \<and> k_descriptors (world (at_exit reference_os (snd (single_instance_unix k reference_os name kst))))
              (k_next_fd (world kst)) = Some kpath
        \<and> k_lock_holder (world (at_exit reference_os (snd (single_instance_unix k reference_os name kst))))
              kpath = Some This_process)"
  (is "(?H1 \<longrightarrow> ?C1) \<and> ?K")
proof (intro conjI impI)
  assume ?H1
  then show ?C1 by (rule body_primary_registers)
next
  assume h: "unix_socket_paths k reference_os name ''.lock'' (world kst) = Inr (kpath # krest)"
    "k_open_error (world kst) kpath = None"
    "k_files (world kst) kpath = None \<or> k_files (world kst) kpath = Some Regular_file"
    "k_lock_holder (world kst) kpath \<noteq> Some Other_process"
    "\<not> is_abstract (socket_path_of kpath)"
    and empty: "atexit_registry kst = []"
  note r = kernel_single_instance_unix_primary[OF h]
  have d: "socket_path_of kpath \<noteq> kpath" "socket_path_of kpath \<noteq> []"
    using socket_path_differs[OF h(1)] by (simp_all add: socket_path_of_def)
  show "fst (single_instance_unix k reference_os name kst) = Return (Some True)"
    by (simp add: r)
  show "k_files (world (at_exit reference_os (snd (single_instance_unix k reference_os name kst))))
            = (k_files (world kst))(kpath \<mapsto> Regular_file, socket_path_of kpath := None)"
    using d by (simp add: r at_exit_def empty kernel_remove_socket_file_files)
  show "k_descriptors (world (at_exit reference_os (snd (single_instance_unix k reference_os name kst))))
              (k_next_fd (world kst)) = Some kpath"
    by (simp add: r at_exit_def empty kernel_remove_socket_file_frame)
  show "k_lock_holder (world (at_exit reference_os (snd (single_instance_unix k reference_os name kst))))
              kpath = Some This_process"
    by (simp add: r at_exit_def empty kernel_remove_socket_file_frame)
qed

theorem cleanup_spares_lock_file_witness:
  "fst (single_instance_unix kitty reference_os ''kitty-ipc-1000'' (start fresh_kernel))
     = Return (Some True)
   \<and> k_files (world (at_exit reference_os
        (snd (single_instance_unix kitty reference_os ''kitty-ipc-1000'' (start fresh_kernel)))))
        ''/tmp/kitty-ipc-1000.lock'' = Some Regular_file
   \<and> k_files (world (at_exit reference_os
        (snd (single_instance_unix kitty reference_os ''kitty-ipc-1000'' (start fresh_kernel)))))
        ''/tmp/kitty-ipc-1000.sock'' = None
   \<and> k_descriptors (world (at_exit reference_os
        (snd (single_instance_unix kitty reference_os ''kitty-ipc-1000'' (start fresh_kernel)))))
        3 = Some ''/tmp/kitty-ipc-1000.lock''
   \<and> atexit_registry
        (snd (single_instance_unix kitty reference_os ''kitty-ipc-1000'' (start fresh_kernel)))
     = [(0, Some ''/tmp/kitty-ipc-1000.sock'')]"
proof -
  let ?p = "''/tmp/kitty-ipc-1000.lock''"
  let ?st = "start fresh_kernel"
  have paths: "unix_socket_paths kitty reference_os ''kitty-ipc-1000'' ''.lock'' (world ?st)
                 = Inr [?p, ''/home/u/.kitty-ipc-1000.lock'']"
    by (rule example_paths) (simp_all add: reference_os_def start_def fresh_kernel_def)
  have h: "k_open_error (world ?st) ?p = None"
    "k_files (world ?st) ?p = None \<or> k_files (world ?st) ?p = Some Regular_file"
    "k_lock_holder (world ?st) ?p \<noteq> Some Other_process"
    "\<not> is_abstract (socket_path_of ?p)"
    "atexit_registry ?st = []"
    by (simp_all add: example_socket_path is_abstract_def start_def fresh_kernel_def)
  note k = cleanup_spares_lock_file[THEN conjunct2, rule_format, OF paths h]
  obtain r st' where body: "single_instance_unix_body reference_os ?p ?st = (r, st')"
    by (cases "single_instance_unix_body reference_os ?p ?st")
  have first: "single_instance_unix kitty reference_os ''kitty-ipc-1000'' ?st
                 = (case r of Return b \<Rightarrow> (Return (Some b), st') | Raise e \<Rightarrow> (Raise e, st'))"
    using paths body by (simp add: single_instance_unix_first)
  have r: "r = Return True" using k first by (cases r) auto
  obtain s where reg: "atexit_registry st' = (s, Some (socket_path_of ?p)) # atexit_registry ?st"
      and sock: "single_instance_socket st' = Some s"
    using cleanup_spares_lock_file[THEN conjunct1, rule_format, of reference_os ?p ?st st'] body r
    by blast
  have "s = 0"
    using sock body r kernel_primary[of ?st fresh_kernel ?p] h
    by (simp add: start_def fresh_kernel_def example_socket_path)
  then have e: "atexit_registry
        (snd (single_instance_unix kitty reference_os ''kitty-ipc-1000'' ?st))
     = [(0, Some ''/tmp/kitty-ipc-1000.sock'')]"
    using reg first r by (simp add: example_socket_path start_def)
  show ?thesis
    using k e by (simp add: example_socket_path start_def fresh_kernel_def)
qed

end
